theory Spec2Isabelle
  imports Complex_Main "HOL-Library.AList"
begin

section \<open>Browser environment shared by the components\<close>

text \<open>
  JavaScript strings are modelled as \<^typ>\<open>string\<close>: a list of code units, restricted to
  the Latin-1 range. \<open>localStorage\<close> is a finite map from keys to string values;
  \<open>getItem\<close> of an absent key is \<open>null\<close>, modelled by \<^const>\<open>None\<close>.
\<close>

type_synonym storage = "string \<rightharpoonup> string"

definition getItem :: "storage \<Rightarrow> string \<Rightarrow> string option" where
  "getItem ls k = ls k"

definition setItem :: "string \<Rightarrow> string \<Rightarrow> storage \<Rightarrow> storage" where
  "setItem k v ls = ls(k \<mapsto> v)"

definition removeItem :: "string \<Rightarrow> storage \<Rightarrow> storage" where
  "removeItem k ls = ls(k := None)"

text \<open>
  The router is the history stack, current entry first. \<open>navigate(path, {replace: true})\<close>
  overwrites the current entry, a plain \<open>navigate(path)\<close> pushes a new one.
\<close>

record browser =
  localStorage :: storage
  history :: "string list"

definition navigate :: "string \<Rightarrow> bool \<Rightarrow> string list \<Rightarrow> string list" where
  "navigate path replace h = (if replace then path # tl h else path # h)"

definition location :: "browser \<Rightarrow> string" where
  "location b = (case history b of [] \<Rightarrow> [] | p # _ \<Rightarrow> p)"

section \<open>Sidebar\<close>

text \<open>
  \<^verbatim>\<open>
  const handleLogout = () => {
    // Clear authentication data from localStorage
    localStorage.removeItem('token');
    localStorage.removeItem('full_name');
    localStorage.removeItem('email');
    // Redirect to login page
    navigate('/', { replace: true });
  };
  \<close>
\<close>

definition handleLogout :: "browser \<Rightarrow> browser" where
  "handleLogout b =
     b\<lparr>localStorage :=
         removeItem ''email'' (removeItem ''full_name'' (removeItem ''token'' (localStorage b))),
       history := navigate ''/'' True (history b)\<rparr>"

section \<open>JavaScript values, requests and effects\<close>

text \<open>
  Form fields and the records exchanged with the API hold JavaScript values. A plain record
  is an association list in insertion order; reading a missing key gives \<open>undefined\<close>, and
  the spread \<open>{...prev, [name]: value}\<close> overwrites a key in place or appends it.
\<close>

datatype jsv = JUndefined | JNull | JBool bool | JNum int | JStr string

type_synonym jsobj = "(string \<times> jsv) list"

definition field :: "jsobj \<Rightarrow> string \<Rightarrow> jsv" where
  "field obj k = (case map_of obj k of None \<Rightarrow> JUndefined | Some v \<Rightarrow> v)"

definition spread_set :: "jsobj \<Rightarrow> jsobj \<Rightarrow> jsobj" where
  "spread_set prev upd = foldl (\<lambda>obj (k, v). AList.update k v obj) prev upd"

fun falsy :: "jsv \<Rightarrow> bool" where
  "falsy JUndefined = True"
| "falsy JNull = True"
| "falsy (JBool b) = (\<not> b)"
| "falsy (JNum n) = (n = 0)"
| "falsy (JStr s) = (s = [])"

fun digits :: "nat \<Rightarrow> string" where
  "digits n = (if n < 10 then [char_of (48 + n)] else digits (n div 10) @ [char_of (48 + n mod 10)])"

fun to_string :: "jsv \<Rightarrow> string" where
  "to_string JUndefined = ''undefined''"
| "to_string JNull = ''null''"
| "to_string (JBool b) = (if b then ''true'' else ''false'')"
| "to_string (JNum n) = (if n < 0 then CHR ''-'' # digits (nat (- n)) else digits (nat n))"
| "to_string (JStr s) = s"

text \<open>
  \<open>String.prototype.trim\<close> on the Latin-1 range: tab, line feed, vertical tab, form feed,
  carriage return, space and no-break space are white space.
\<close>

definition is_space :: "char \<Rightarrow> bool" where
  "is_space c = (of_char c \<in> {9, 10, 11, 12, 13, 32, 160 :: nat})"

definition trim :: "string \<Rightarrow> string" where
  "trim s = rev (dropWhile is_space (rev (dropWhile is_space s)))"

text \<open>\<open>String.prototype.toLowerCase\<close> on the Latin-1 range.\<close>

definition toLowerCase_char :: "char \<Rightarrow> char" where
  "toLowerCase_char c =
     (let n = (of_char c :: nat) in
      if (65 \<le> n \<and> n \<le> 90) \<or> (192 \<le> n \<and> n \<le> 222 \<and> n \<noteq> 215)
      then (case c of Char b0 b1 b2 b3 b4 b5 b6 b7 \<Rightarrow> Char b0 b1 b2 b3 b4 True b6 b7)
      else c)"

definition toLowerCase :: "string \<Rightarrow> string" where
  "toLowerCase s = map toLowerCase_char s"

text \<open>\<open>s.split(d)\<close> for a one-character separator: never empty, \<open>"".split(".")\<close> is \<open>[""]\<close>.\<close>

fun split :: "char \<Rightarrow> string \<Rightarrow> string list" where
  "split d [] = [[]]"
| "split d (c # cs) =
     (if c = d then [] # split d cs
      else (case split d cs of [] \<Rightarrow> [[c]] | w # ws \<Rightarrow> (c # w) # ws))"

text \<open>\<open>Array.prototype.pop\<close>: the last element, \<open>undefined\<close> on an empty array.\<close>

definition pop :: "'a list \<Rightarrow> 'a option" where
  "pop xs = (case rev xs of [] \<Rightarrow> None | x # _ \<Rightarrow> Some x)"

text \<open>
  Request bodies are kept as the handler builds them, before serialisation. \<open>parseInt\<close>
  yields a floating-point number, so its applications stay symbolic:
  \<open>ParseInt v\<close> stands for \<open>parseInt(v)\<close> and \<open>ParseIntOr0 v\<close> for \<open>parseInt(v) || 0\<close>.
\<close>

record jsfile =
  file_name :: string
  file_size :: nat

datatype json = Val jsv | ParseInt jsv | ParseIntOr0 jsv

datatype part = FilePart jsfile | TextPart jsv

datatype body = NoBody | Json "(string \<times> json) list" | Multipart "(string \<times> part) list"

record request =
  url :: string
  http_method :: string
  headers :: "(string \<times> string) list"
  body :: body

definition header :: "request \<Rightarrow> string \<Rightarrow> string option" where
  "header r k = map_of (headers r) k"

text \<open>
  What a handler does to the outside world, in program order: toasts, console output,
  \<open>fetch\<close> calls, and timers (\<open>NavigateAfter ms path\<close> is
  \<open>setTimeout(() => navigate(path), ms)\<close>; \<open>ReplyAfter ms\<close> is the chat's reply timer).
\<close>

datatype effect =
    ToastError string
  | ToastSuccess string
  | ConsoleError string
  | Fetch request
  | NavigateAfter nat string
  | ReplyAfter nat

definition requests :: "effect list \<Rightarrow> request list" where
  "requests effs = concat (map (\<lambda>e. case e of Fetch r \<Rightarrow> [r] | _ \<Rightarrow> []) effs)"

definition error_toasts :: "effect list \<Rightarrow> string list" where
  "error_toasts effs = concat (map (\<lambda>e. case e of ToastError m \<Rightarrow> [m] | _ \<Rightarrow> []) effs)"

text \<open>
  The outcome of \<open>await fetch(...)\<close> followed by \<open>await response.json()\<close>: either
  something in the \<open>try\<close> block throws (\<open>Threw message\<close>), or the parsed object arrives.
  Of the object the handlers read \<open>success\<close> (its truthiness), \<open>error\<close> (empty when absent)
  and one endpoint-specific payload.
\<close>

record 'a data =
  success :: bool
  error :: string
  payload :: 'a

datatype 'a reply = Threw string | Parsed "'a data"

definition or_else :: "string \<Rightarrow> string \<Rightarrow> string" where
  "or_else e fallback = (if e = [] then fallback else e)"

text \<open>The template literal \<open>`Bearer ${token}`\<close>; a \<open>null\<close> token prints as \<open>null\<close>.\<close>

definition bearer :: "storage \<Rightarrow> string" where
  "bearer ls = ''Bearer '' @ (case getItem ls ''token'' of None \<Rightarrow> ''null'' | Some t \<Rightarrow> t)"

definition API :: string where
  "API = ''http://localhost:5000/api''"

definition get_request :: "storage \<Rightarrow> string \<Rightarrow> request" where
  "get_request ls path =
     \<lparr>url = API @ path, http_method = ''GET'', headers = [(''Authorization'', bearer ls)],
      body = NoBody\<rparr>"

definition post_json :: "storage \<Rightarrow> string \<Rightarrow> (string \<times> json) list \<Rightarrow> request" where
  "post_json ls path b =
     \<lparr>url = API @ path, http_method = ''POST'',
      headers = [(''Content-Type'', ''application/json''), (''Authorization'', bearer ls)],
      body = Json b\<rparr>"

text \<open>\<open>JSON.stringify(formData)\<close>: every field as it is.\<close>

definition stringify :: "jsobj \<Rightarrow> (string \<times> json) list" where
  "stringify obj = map (\<lambda>(k, v). (k, Val v)) obj"

text \<open>
  React component state. A handler runs in the closure of the render that created it, so
  a continuation after \<open>await\<close> takes two states: \<open>c\<close>, the state the handler captured
  when it was invoked, and \<open>s\<close>, the state when the reply arrives. \<open>setX(value)\<close> writes a
  value computed from \<open>c\<close>; \<open>setX(prev => ...)\<close> computes from \<open>s\<close>.
\<close>

record loadable =
  loading :: bool

record section_state = loadable +
  formData :: jsobj
  activeTab :: string

type_synonym item = jsobj

text \<open>\<open>handleChange\<close> is the same function in every section component.\<close>

definition handleChange :: "string \<Rightarrow> string \<Rightarrow> 'a section_state_scheme \<Rightarrow> 'a section_state_scheme" where
  "handleChange name value s = s\<lparr>formData := spread_set (formData s) [(name, JStr value)]\<rparr>"

section \<open>MedicalReports\<close>

record reports_state = section_state +
  reports :: "item list"
  selectedFile :: "jsfile option"
  fileError :: string

definition reports_form :: jsobj where
  "reports_form = [(''name'', JStr ''''), (''report_type'', JStr ''''), (''notes'', JStr '''')]"

definition MedicalReports_init :: reports_state where
  "MedicalReports_init =
     \<lparr>loading = False, formData = reports_form, activeTab = ''upload'',
      reports = [], selectedFile = None, fileError = ''''\<rparr>"

definition fetchReports :: "storage \<Rightarrow> effect list" where
  "fetchReports ls = [Fetch (get_request ls ''/report/list'')]"

definition fetchReports_reply :: "item list reply \<Rightarrow> reports_state \<Rightarrow> reports_state \<times> effect list" where
  "fetchReports_reply r s =
     (case r of
        Parsed d \<Rightarrow>
          if success d then (s\<lparr>reports := payload d\<rparr>, [])
          else (s, [ToastError ''Failed to load reports''])
      | Threw m \<Rightarrow> (s, [ToastError ''Error loading reports'', ConsoleError m]))"

definition allowedExtensions :: "string list" where
  "allowedExtensions = [''pdf'', ''jpg'', ''jpeg'', ''png'', ''bmp'', ''tiff'', ''docx'', ''doc'']"

definition maxSize :: nat where
  "maxSize = 10 * 1024 * 1024"

definition fileExtension :: "jsfile \<Rightarrow> string option" where
  "fileExtension f = map_option toLowerCase (pop (split (CHR ''.'') (file_name f)))"

text \<open>\<open>e.target.files[0]\<close> is \<open>undefined\<close> when the chooser was cancelled.\<close>

definition handleFileSelect :: "jsfile option \<Rightarrow> reports_state \<Rightarrow> reports_state \<times> effect list" where
  "handleFileSelect file0 s =
     (case file0 of
        None \<Rightarrow> (s\<lparr>selectedFile := None, fileError := ''''\<rparr>, [])
      | Some f \<Rightarrow>
          if \<not> (case fileExtension f of None \<Rightarrow> False | Some x \<Rightarrow> x \<in> set allowedExtensions)
          then (s\<lparr>fileError := ''Invalid file type. Allowed: PDF, JPG, PNG, BMP, TIFF, DOCX'',
                   selectedFile := None\<rparr>, [])
          else if file_size f > maxSize
          then (s\<lparr>fileError := ''File size exceeds 10MB limit'', selectedFile := None\<rparr>, [])
          else (s\<lparr>selectedFile := Some f, fileError := ''''\<rparr>, []))"

definition upload_request :: "storage \<Rightarrow> jsfile \<Rightarrow> jsobj \<Rightarrow> request" where
  "upload_request ls f fd =
     \<lparr>url = API @ ''/report/upload'', http_method = ''POST'',
      headers = [(''Authorization'', bearer ls)],
      body = Multipart [(''file'', FilePart f), (''name'', TextPart (field fd ''name'')),
                        (''report_type'', TextPart (field fd ''report_type'')),
                        (''notes'', TextPart (field fd ''notes''))]\<rparr>"

definition handleUploadReport :: "storage \<Rightarrow> reports_state \<Rightarrow> reports_state \<times> effect list" where
  "handleUploadReport ls s =
     (if falsy (field (formData s) ''name'') \<or> falsy (field (formData s) ''report_type'')
      then (s, [ToastError ''Please fill in report name and type''])
      else case selectedFile s of
        None \<Rightarrow> (s, [ToastError ''Please select a file to upload''])
      | Some f \<Rightarrow> (s\<lparr>loading := True\<rparr>, [Fetch (upload_request ls f (formData s))]))"

definition handleUploadReport_reply ::
  "reports_state \<Rightarrow> item reply \<Rightarrow> reports_state \<Rightarrow> reports_state \<times> effect list" where
  "handleUploadReport_reply c r s =
     (case r of
        Parsed d \<Rightarrow>
          if success d
          then (s\<lparr>reports := reports c @ [payload d], formData := reports_form,
                   selectedFile := None, activeTab := ''view'', loading := False\<rparr>,
                [ToastSuccess ''Report uploaded successfully''])
          else (s\<lparr>loading := False\<rparr>, [ToastError (or_else (error d) ''Failed to upload report'')])
      | Threw m \<Rightarrow> (s\<lparr>loading := False\<rparr>, [ToastError ''Error uploading report'', ConsoleError m]))"

text \<open>\<open>confirmed\<close> is the answer to \<open>window.confirm\<close>.\<close>

definition handleDeleteReport :: "storage \<Rightarrow> bool \<Rightarrow> jsv \<Rightarrow> effect list" where
  "handleDeleteReport ls confirmed reportId =
     (if \<not> confirmed then []
      else [Fetch \<lparr>url = API @ ''/report/'' @ to_string reportId, http_method = ''DELETE'',
                   headers = [(''Authorization'', bearer ls)], body = NoBody\<rparr>])"

definition handleDeleteReport_reply ::
  "reports_state \<Rightarrow> jsv \<Rightarrow> unit reply \<Rightarrow> reports_state \<Rightarrow> reports_state \<times> effect list" where
  "handleDeleteReport_reply c reportId r s =
     (case r of
        Parsed d \<Rightarrow>
          if success d
          then (s\<lparr>reports := filter (\<lambda>r. field r ''id'' \<noteq> reportId) (reports c)\<rparr>,
                [ToastSuccess ''Report deleted successfully''])
          else (s, [ToastError ''Failed to delete report''])
      | Threw m \<Rightarrow> (s, [ToastError ''Error deleting report'', ConsoleError m]))"

text \<open>
  Everything that can happen to a mounted MedicalReports component. Replies carry the
  state their handler captured.
\<close>

datatype reports_event =
    RMount
  | RChange string string
  | RFileSelect "jsfile option"
  | RSubmitUpload
  | RTabUpload
  | RTabView
  | RClickDelete bool jsv
  | RListReply "item list reply"
  | RUploadReply reports_state "item reply"
  | RDeleteReply reports_state jsv "unit reply"

fun reports_step :: "storage \<Rightarrow> reports_event \<Rightarrow> reports_state \<Rightarrow> reports_state \<times> effect list" where
  "reports_step ls RMount s = (s, fetchReports ls)"
| "reports_step ls (RChange name value) s = (handleChange name value s, [])"
| "reports_step ls (RFileSelect f) s = handleFileSelect f s"
| "reports_step ls RSubmitUpload s = handleUploadReport ls s"
| "reports_step ls RTabUpload s = (s\<lparr>activeTab := ''upload''\<rparr>, [])"
| "reports_step ls RTabView s = (s\<lparr>activeTab := ''view''\<rparr>, fetchReports ls)"
| "reports_step ls (RClickDelete confirmed reportId) s = (s, handleDeleteReport ls confirmed reportId)"
| "reports_step ls (RListReply r) s = fetchReports_reply r s"
| "reports_step ls (RUploadReply c r) s = handleUploadReport_reply c r s"
| "reports_step ls (RDeleteReply c reportId r) s = handleDeleteReport_reply c reportId r s"

text \<open>
  The check \<open>handleFileSelect\<close> makes, written on the name itself: the last segment of the
  name when it is cut at its dots (the text after the last dot, and the whole name when it
  has no dot), lower-cased, is in the list, and the size is at most 10 * 1024 * 1024 bytes.
  The handler is shown below to compute exactly this.
\<close>

definition last_segment :: "string \<Rightarrow> string" where
  "last_segment name = rev (takeWhile (\<lambda>c. c \<noteq> CHR ''.'') (rev name))"

definition passes_validation :: "jsfile \<Rightarrow> bool" where
  "passes_validation f =
     (toLowerCase (last_segment (file_name f)) \<in>
        {''pdf'', ''jpg'', ''jpeg'', ''png'', ''bmp'', ''tiff'', ''docx'', ''doc''} \<and>
      file_size f \<le> 10 * 1024 * 1024)"

text \<open>The files a request uploads.\<close>

definition uploaded_files :: "request \<Rightarrow> jsfile list" where
  "uploaded_files r =
     (case body r of
        Multipart ps \<Rightarrow> concat (map (\<lambda>(k, p). case p of FilePart f \<Rightarrow> [f] | TextPart _ \<Rightarrow> []) ps)
      | _ \<Rightarrow> [])"

text \<open>
  The life of a mounted MedicalReports component: its state and the requests sent so far.
  Any event may come next, under any content of local storage, and a reply may carry any
  captured state and any content; the component's real runs are among these.
\<close>

inductive reports_reach :: "reports_state \<times> request list \<Rightarrow> bool" where
  reports_mount: "reports_reach (MedicalReports_init, [])"
| reports_event: "reports_reach (s, sent) \<Longrightarrow>
     reports_reach (fst (reports_step ls e s), sent @ requests (snd (reports_step ls e s)))"

section \<open>MedicationTracker\<close>

record med_state = section_state +
  medications :: "item list"

definition med_form :: jsobj where
  "med_form = [(''name'', JStr ''''), (''dosage'', JStr ''''), (''frequency'', JStr ''''),
               (''start_date'', JStr ''''), (''end_date'', JStr ''''), (''notes'', JStr '''')]"

definition MedicationTracker_init :: med_state where
  "MedicationTracker_init =
     \<lparr>loading = False, formData = med_form, activeTab = ''add'', medications = []\<rparr>"

definition fetchMedications :: "storage \<Rightarrow> effect list" where
  "fetchMedications ls = [Fetch (get_request ls ''/medication/active'')]"

definition fetchMedications_reply :: "item list reply \<Rightarrow> med_state \<Rightarrow> med_state \<times> effect list" where
  "fetchMedications_reply r s =
     (case r of
        Parsed d \<Rightarrow> if success d then (s\<lparr>medications := payload d\<rparr>, []) else (s, [])
      | Threw m \<Rightarrow> (s, [ConsoleError (''Error fetching medications: '' @ m)]))"

definition handleAddMedication :: "storage \<Rightarrow> med_state \<Rightarrow> med_state \<times> effect list" where
  "handleAddMedication ls s =
     (if falsy (field (formData s) ''name'') \<or> falsy (field (formData s) ''dosage'') \<or>
         falsy (field (formData s) ''frequency'')
      then (s, [ToastError ''Please fill in all required fields''])
      else (s\<lparr>loading := True\<rparr>,
            [Fetch (post_json ls ''/medication/add'' (stringify (formData s)))]))"

definition handleAddMedication_reply ::
  "med_state \<Rightarrow> item reply \<Rightarrow> med_state \<Rightarrow> med_state \<times> effect list" where
  "handleAddMedication_reply c r s =
     (case r of
        Parsed d \<Rightarrow>
          if success d
          then (s\<lparr>medications := medications c @ [payload d], formData := med_form,
                   activeTab := ''view'', loading := False\<rparr>,
                [ToastSuccess ''Medication added successfully''])
          else (s\<lparr>loading := False\<rparr>, [ToastError (or_else (error d) ''Failed to add medication'')])
      | Threw m \<Rightarrow> (s\<lparr>loading := False\<rparr>, [ToastError ''Error adding medication'', ConsoleError m]))"

text \<open>\<open>now\<close> is \<open>new Date().toISOString()\<close>.\<close>

definition handleLogDose :: "storage \<Rightarrow> string \<Rightarrow> jsv \<Rightarrow> effect list" where
  "handleLogDose ls now medicationId =
     [Fetch (post_json ls ''/medication/log-dose''
        [(''medication_id'', Val medicationId), (''date'', Val (JStr now)),
         (''taken'', Val (JBool True))])]"

definition handleLogDose_reply :: "unit reply \<Rightarrow> effect list" where
  "handleLogDose_reply r =
     (case r of
        Parsed d \<Rightarrow>
          if success d then [ToastSuccess ''Dose logged successfully!'']
          else [ToastError (or_else (error d) ''Failed to log dose'')]
      | Threw m \<Rightarrow> [ToastError ''Error logging dose'', ConsoleError m])"

datatype med_event =
    MMount
  | MChange string string
  | MSubmitAdd
  | MTabAdd
  | MTabView
  | MClickLogDose string jsv
  | MListReply "item list reply"
  | MAddReply med_state "item reply"
  | MLogDoseReply "unit reply"

fun med_step :: "storage \<Rightarrow> med_event \<Rightarrow> med_state \<Rightarrow> med_state \<times> effect list" where
  "med_step ls MMount s = (s, fetchMedications ls)"
| "med_step ls (MChange name value) s = (handleChange name value s, [])"
| "med_step ls MSubmitAdd s = handleAddMedication ls s"
| "med_step ls MTabAdd s = (s\<lparr>activeTab := ''add''\<rparr>, [])"
| "med_step ls MTabView s = (s\<lparr>activeTab := ''view''\<rparr>, fetchMedications ls)"
| "med_step ls (MClickLogDose now medicationId) s = (s, handleLogDose ls now medicationId)"
| "med_step ls (MListReply r) s = fetchMedications_reply r s"
| "med_step ls (MAddReply c r) s = handleAddMedication_reply c r s"
| "med_step ls (MLogDoseReply r) s = (s, handleLogDose_reply r)"

section \<open>AppointmentScheduler\<close>

record appt_state = section_state +
  appointments :: "item list"

definition appt_form :: jsobj where
  "appt_form = [(''date'', JStr ''''), (''time'', JStr ''''), (''doctor'', JStr ''''),
                (''purpose'', JStr ''''), (''location'', JStr ''''), (''notes'', JStr '''')]"

definition AppointmentScheduler_init :: appt_state where
  "AppointmentScheduler_init =
     \<lparr>loading = False, formData = appt_form, activeTab = ''schedule'', appointments = []\<rparr>"

definition fetchAppointments :: "storage \<Rightarrow> effect list" where
  "fetchAppointments ls = [Fetch (get_request ls ''/appointment/upcoming'')]"

definition fetchAppointments_reply :: "item list reply \<Rightarrow> appt_state \<Rightarrow> appt_state \<times> effect list" where
  "fetchAppointments_reply r s =
     (case r of
        Parsed d \<Rightarrow> if success d then (s\<lparr>appointments := payload d\<rparr>, []) else (s, [])
      | Threw m \<Rightarrow> (s, [ConsoleError (''Error fetching appointments: '' @ m)]))"

definition handleScheduleAppointment :: "storage \<Rightarrow> appt_state \<Rightarrow> appt_state \<times> effect list" where
  "handleScheduleAppointment ls s =
     (if falsy (field (formData s) ''date'') \<or> falsy (field (formData s) ''time'') \<or>
         falsy (field (formData s) ''doctor'') \<or> falsy (field (formData s) ''purpose'')
      then (s, [ToastError ''Please fill in all required fields''])
      else (s\<lparr>loading := True\<rparr>,
            [Fetch (post_json ls ''/appointment/schedule'' (stringify (formData s)))]))"

definition handleScheduleAppointment_reply ::
  "appt_state \<Rightarrow> item reply \<Rightarrow> appt_state \<Rightarrow> appt_state \<times> effect list" where
  "handleScheduleAppointment_reply c r s =
     (case r of
        Parsed d \<Rightarrow>
          if success d
          then (s\<lparr>appointments := appointments c @ [payload d], formData := appt_form,
                   activeTab := ''view'', loading := False\<rparr>,
                [ToastSuccess ''Appointment scheduled successfully!''])
          else (s\<lparr>loading := False\<rparr>,
                [ToastError (or_else (error d) ''Failed to schedule appointment'')])
      | Threw m \<Rightarrow>
          (s\<lparr>loading := False\<rparr>, [ToastError ''Error scheduling appointment'', ConsoleError m]))"

datatype appt_event =
    ApMount
  | ApChange string string
  | ApSubmitSchedule
  | ApTabSchedule
  | ApTabView
  | ApListReply "item list reply"
  | ApScheduleReply appt_state "item reply"

fun appt_step :: "storage \<Rightarrow> appt_event \<Rightarrow> appt_state \<Rightarrow> appt_state \<times> effect list" where
  "appt_step ls ApMount s = (s, fetchAppointments ls)"
| "appt_step ls (ApChange name value) s = (handleChange name value s, [])"
| "appt_step ls ApSubmitSchedule s = handleScheduleAppointment ls s"
| "appt_step ls ApTabSchedule s = (s\<lparr>activeTab := ''schedule''\<rparr>, [])"
| "appt_step ls ApTabView s = (s\<lparr>activeTab := ''view''\<rparr>, fetchAppointments ls)"
| "appt_step ls (ApListReply r) s = fetchAppointments_reply r s"
| "appt_step ls (ApScheduleReply c r) s = handleScheduleAppointment_reply c r s"

section \<open>LifestyleLogger\<close>

text \<open>\<open>summary\<close> starts as \<open>null\<close>.\<close>

record life_state = section_state +
  summary :: "jsobj option"

definition life_form :: jsobj where
  "life_form = [(''water_intake_ml'', JStr ''''), (''steps'', JStr ''''), (''sleep_hours'', JStr ''''),
                (''exercise_minutes'', JStr ''''), (''meal_type'', JStr ''''),
                (''description'', JStr ''''), (''calories'', JStr '''')]"

definition LifestyleLogger_init :: life_state where
  "LifestyleLogger_init =
     \<lparr>loading = False, formData = life_form, activeTab = ''log'', summary = None\<rparr>"

definition fetchSummary :: "storage \<Rightarrow> effect list" where
  "fetchSummary ls = [Fetch (get_request ls ''/lifestyle/stats'')]"

definition fetchSummary_reply :: "jsobj option reply \<Rightarrow> life_state \<Rightarrow> life_state \<times> effect list" where
  "fetchSummary_reply r s =
     (case r of
        Parsed d \<Rightarrow> if success d then (s\<lparr>summary := payload d\<rparr>, []) else (s, [])
      | Threw m \<Rightarrow> (s, [ConsoleError (''Error fetching summary: '' @ m)]))"

definition handleSubmitLifestyle :: "storage \<Rightarrow> life_state \<Rightarrow> life_state \<times> effect list" where
  "handleSubmitLifestyle ls s =
     (s\<lparr>loading := True\<rparr>,
      [Fetch (post_json ls ''/lifestyle/activity''
         [(''activity_type'',
             Val (JStr (if falsy (field (formData s) ''exercise_minutes'') then ''Other''
                        else ''Exercise''))),
          (''duration'', ParseIntOr0 (field (formData s) ''exercise_minutes'')),
          (''intensity'', Val (JStr ''medium'')),
          (''calories'', Val (JNum 0)),
          (''notes'', Val (JStr (''Steps: '' @ to_string (field (formData s) ''steps'') @
                                 '', Sleep: '' @ to_string (field (formData s) ''sleep_hours'') @
                                 ''hrs, Water: '' @
                                 to_string (field (formData s) ''water_intake_ml'') @ ''ml'')))])])"

definition handleSubmitLifestyle_reply ::
  "storage \<Rightarrow> unit reply \<Rightarrow> life_state \<Rightarrow> life_state \<times> effect list" where
  "handleSubmitLifestyle_reply ls r s =
     (case r of
        Parsed d \<Rightarrow>
          if success d
          then (s\<lparr>formData := spread_set (formData s)
                     [(''water_intake_ml'', JStr ''''), (''steps'', JStr ''''),
                      (''sleep_hours'', JStr ''''), (''exercise_minutes'', JStr '''')],
                   loading := False\<rparr>,
                ToastSuccess ''Lifestyle data logged successfully'' # fetchSummary ls)
          else (s\<lparr>loading := False\<rparr>, [ToastError (or_else (error d) ''Failed to log lifestyle'')])
      | Threw m \<Rightarrow>
          (s\<lparr>loading := False\<rparr>, [ToastError ''Error logging lifestyle data'', ConsoleError m]))"

definition handleSubmitMeal :: "storage \<Rightarrow> life_state \<Rightarrow> life_state \<times> effect list" where
  "handleSubmitMeal ls s =
     (if falsy (field (formData s) ''meal_type'') \<or> falsy (field (formData s) ''description'')
      then (s, [ToastError ''Please fill in meal type and description''])
      else (s\<lparr>loading := True\<rparr>,
            [Fetch (post_json ls ''/lifestyle/meal''
               [(''meal_type'', Val (field (formData s) ''meal_type'')),
                (''description'', Val (field (formData s) ''description'')),
                (''calories'', ParseIntOr0 (field (formData s) ''calories''))])]))"

definition handleSubmitMeal_reply ::
  "storage \<Rightarrow> unit reply \<Rightarrow> life_state \<Rightarrow> life_state \<times> effect list" where
  "handleSubmitMeal_reply ls r s =
     (case r of
        Parsed d \<Rightarrow>
          if success d
          then (s\<lparr>formData := spread_set (formData s)
                     [(''meal_type'', JStr ''''), (''description'', JStr ''''),
                      (''calories'', JStr '''')],
                   loading := False\<rparr>,
                ToastSuccess ''Meal logged successfully'' # fetchSummary ls)
          else (s\<lparr>loading := False\<rparr>, [ToastError (or_else (error d) ''Failed to log meal'')])
      | Threw m \<Rightarrow> (s\<lparr>loading := False\<rparr>, [ToastError ''Error logging meal'', ConsoleError m]))"

datatype life_event =
    LMount
  | LChange string string
  | LSubmitLifestyle
  | LSubmitMeal
  | LTabLog
  | LTabSummary
  | LSummaryReply "jsobj option reply"
  | LLifestyleReply "unit reply"
  | LMealReply "unit reply"

fun life_step :: "storage \<Rightarrow> life_event \<Rightarrow> life_state \<Rightarrow> life_state \<times> effect list" where
  "life_step ls LMount s = (s, fetchSummary ls)"
| "life_step ls (LChange name value) s = (handleChange name value s, [])"
| "life_step ls LSubmitLifestyle s = handleSubmitLifestyle ls s"
| "life_step ls LSubmitMeal s = handleSubmitMeal ls s"
| "life_step ls LTabLog s = (s\<lparr>activeTab := ''log''\<rparr>, [])"
| "life_step ls LTabSummary s = (s\<lparr>activeTab := ''summary''\<rparr>, [])"
| "life_step ls (LSummaryReply r) s = fetchSummary_reply r s"
| "life_step ls (LLifestyleReply r) s = handleSubmitLifestyle_reply ls r s"
| "life_step ls (LMealReply r) s = handleSubmitMeal_reply ls r s"

section \<open>WomensHealth\<close>

record womens_state = section_state +
  periods :: "item list"
  symptoms :: "item list"
  viewTab :: string

definition womens_form :: jsobj where
  "womens_form = [(''start_date'', JStr ''''), (''end_date'', JStr ''''), (''flow'', JStr ''medium''),
                  (''notes'', JStr ''''), (''symptom_type'', JStr ''''),
                  (''symptom_severity'', JNum 5)]"

definition WomensHealth_init :: womens_state where
  "WomensHealth_init =
     \<lparr>loading = False, formData = womens_form, activeTab = ''period'',
      periods = [], symptoms = [], viewTab = ''periods''\<rparr>"

definition fetchPeriodHistory :: "storage \<Rightarrow> effect list" where
  "fetchPeriodHistory ls = [Fetch (get_request ls ''/womens-health/periods'')]"

text \<open>\<open>data.periods || []\<close>: the payload may be missing.\<close>

definition fetchPeriodHistory_reply ::
  "item list option reply \<Rightarrow> womens_state \<Rightarrow> womens_state \<times> effect list" where
  "fetchPeriodHistory_reply r s =
     (case r of
        Parsed d \<Rightarrow>
          if success d
          then (s\<lparr>periods := (case payload d of None \<Rightarrow> [] | Some ps \<Rightarrow> ps)\<rparr>, [])
          else (s, [])
      | Threw m \<Rightarrow> (s, [ConsoleError (''Error fetching periods: '' @ m)]))"

definition fetchSymptomHistory :: "storage \<Rightarrow> effect list" where
  "fetchSymptomHistory ls = [Fetch (get_request ls ''/womens-health/symptoms'')]"

definition fetchSymptomHistory_reply ::
  "item list option reply \<Rightarrow> womens_state \<Rightarrow> womens_state \<times> effect list" where
  "fetchSymptomHistory_reply r s =
     (case r of
        Parsed d \<Rightarrow>
          if success d
          then (s\<lparr>symptoms := (case payload d of None \<Rightarrow> [] | Some ps \<Rightarrow> ps)\<rparr>, [])
          else (s, [])
      | Threw m \<Rightarrow> (s, [ConsoleError (''Error fetching symptoms: '' @ m)]))"

definition handleLogPeriod :: "storage \<Rightarrow> womens_state \<Rightarrow> womens_state \<times> effect list" where
  "handleLogPeriod ls s =
     (if falsy (field (formData s) ''start_date'')
      then (s, [ToastError ''Please select start date''])
      else (s\<lparr>loading := True\<rparr>,
            [Fetch (post_json ls ''/womens-health/period''
               [(''start_date'', Val (field (formData s) ''start_date'')),
                (''end_date'', Val (field (formData s) ''end_date'')),
                (''flow'', Val (field (formData s) ''flow'')),
                (''notes'', Val (field (formData s) ''notes''))])]))"

definition handleLogPeriod_reply ::
  "storage \<Rightarrow> unit reply \<Rightarrow> womens_state \<Rightarrow> womens_state \<times> effect list" where
  "handleLogPeriod_reply ls r s =
     (case r of
        Parsed d \<Rightarrow>
          if success d
          then (s\<lparr>formData := spread_set (formData s)
                     [(''start_date'', JStr ''''), (''end_date'', JStr ''''),
                      (''flow'', JStr ''medium''), (''notes'', JStr '''')],
                   activeTab := ''history'', loading := False\<rparr>,
                ToastSuccess ''Period logged successfully'' # fetchPeriodHistory ls)
          else (s\<lparr>loading := False\<rparr>, [ToastError (or_else (error d) ''Failed to log period'')])
      | Threw m \<Rightarrow> (s\<lparr>loading := False\<rparr>, [ToastError ''Error logging period'', ConsoleError m]))"

definition handleLogSymptom ::
  "storage \<Rightarrow> string \<Rightarrow> womens_state \<Rightarrow> womens_state \<times> effect list" where
  "handleLogSymptom ls now s =
     (if falsy (field (formData s) ''symptom_type'')
      then (s, [ToastError ''Please select symptom type''])
      else (s\<lparr>loading := True\<rparr>,
            [Fetch (post_json ls ''/womens-health/symptom''
               [(''symptom_type'', Val (field (formData s) ''symptom_type'')),
                (''severity'', ParseInt (field (formData s) ''symptom_severity'')),
                (''notes'', Val (field (formData s) ''notes'')),
                (''date'', Val (JStr now))])]))"

definition handleLogSymptom_reply ::
  "storage \<Rightarrow> unit reply \<Rightarrow> womens_state \<Rightarrow> womens_state \<times> effect list" where
  "handleLogSymptom_reply ls r s =
     (case r of
        Parsed d \<Rightarrow>
          if success d
          then (s\<lparr>formData := spread_set (formData s)
                     [(''symptom_type'', JStr ''''), (''symptom_severity'', JNum 5),
                      (''notes'', JStr '''')],
                   activeTab := ''history'', loading := False\<rparr>,
                ToastSuccess ''Symptom logged successfully'' # fetchSymptomHistory ls)
          else (s\<lparr>loading := False\<rparr>, [ToastError (or_else (error d) ''Failed to log symptom'')])
      | Threw m \<Rightarrow> (s\<lparr>loading := False\<rparr>, [ToastError ''Error logging symptom'', ConsoleError m]))"

datatype womens_event =
    WMount
  | WChange string string
  | WSubmitPeriod
  | WSubmitSymptom string
  | WTabPeriod
  | WTabSymptoms
  | WTabHistory
  | WViewPeriods
  | WViewSymptoms
  | WPeriodsReply "item list option reply"
  | WSymptomsReply "item list option reply"
  | WLogPeriodReply "unit reply"
  | WLogSymptomReply "unit reply"

fun womens_step :: "storage \<Rightarrow> womens_event \<Rightarrow> womens_state \<Rightarrow> womens_state \<times> effect list" where
  "womens_step ls WMount s = (s, fetchPeriodHistory ls @ fetchSymptomHistory ls)"
| "womens_step ls (WChange name value) s = (handleChange name value s, [])"
| "womens_step ls WSubmitPeriod s = handleLogPeriod ls s"
| "womens_step ls (WSubmitSymptom now) s = handleLogSymptom ls now s"
| "womens_step ls WTabPeriod s = (s\<lparr>activeTab := ''period''\<rparr>, [])"
| "womens_step ls WTabSymptoms s = (s\<lparr>activeTab := ''symptoms''\<rparr>, [])"
| "womens_step ls WTabHistory s = (s\<lparr>activeTab := ''history'', viewTab := ''periods''\<rparr>, [])"
| "womens_step ls WViewPeriods s = (s\<lparr>viewTab := ''periods''\<rparr>, [])"
| "womens_step ls WViewSymptoms s = (s\<lparr>viewTab := ''symptoms''\<rparr>, [])"
| "womens_step ls (WPeriodsReply r) s = fetchPeriodHistory_reply r s"
| "womens_step ls (WSymptomsReply r) s = fetchSymptomHistory_reply r s"
| "womens_step ls (WLogPeriodReply r) s = handleLogPeriod_reply ls r s"
| "womens_step ls (WLogSymptomReply r) s = handleLogSymptom_reply ls r s"

section \<open>AIDoctorAssistant\<close>

record ai_state = loadable +
  conversations :: "item list"
  question :: string

definition AIDoctorAssistant_init :: ai_state where
  "AIDoctorAssistant_init = \<lparr>loading = False, conversations = [], question = ''''\<rparr>"

definition fetchConversationHistory :: "storage \<Rightarrow> effect list" where
  "fetchConversationHistory ls = [Fetch (get_request ls ''/ai/history'')]"

definition fetchConversationHistory_reply ::
  "item list reply \<Rightarrow> ai_state \<Rightarrow> ai_state \<times> effect list" where
  "fetchConversationHistory_reply r s =
     (case r of
        Parsed d \<Rightarrow> if success d then (s\<lparr>conversations := payload d\<rparr>, []) else (s, [])
      | Threw m \<Rightarrow> (s, [ConsoleError (''Error loading conversation history: '' @ m)]))"

definition handleAskQuestion :: "storage \<Rightarrow> ai_state \<Rightarrow> ai_state \<times> effect list" where
  "handleAskQuestion ls s =
     (if trim (question s) = []
      then (s, [ToastError ''Please enter a question''])
      else (s\<lparr>loading := True\<rparr>,
            [Fetch (post_json ls ''/ai/consult'' [(''question'', Val (JStr (question s)))])]))"

text \<open>The payload is the pair \<open>(data.conversation_id, data.response)\<close>.\<close>

definition handleAskQuestion_reply ::
  "ai_state \<Rightarrow> string \<Rightarrow> (jsv \<times> jsv) reply \<Rightarrow> ai_state \<Rightarrow> ai_state \<times> effect list" where
  "handleAskQuestion_reply c now r s =
     (case r of
        Parsed d \<Rightarrow>
          if success d
          then (s\<lparr>conversations := conversations c @
                     [[(''id'', fst (payload d)), (''query'', JStr (question c)),
                       (''response'', snd (payload d)), (''timestamp'', JStr now)]],
                   question := '''', loading := False\<rparr>,
                [ToastSuccess ''Response received''])
          else (s\<lparr>loading := False\<rparr>, [ToastError (or_else (error d) ''Failed to get response'')])
      | Threw m \<Rightarrow> (s\<lparr>loading := False\<rparr>, [ToastError ''Error asking question'', ConsoleError m]))"

datatype ai_event =
    AMount
  | ASetQuestion string
  | ASubmit
  | AHistoryReply "item list reply"
  | AAskReply ai_state string "(jsv \<times> jsv) reply"

fun ai_step :: "storage \<Rightarrow> ai_event \<Rightarrow> ai_state \<Rightarrow> ai_state \<times> effect list" where
  "ai_step ls AMount s = (s, fetchConversationHistory ls)"
| "ai_step ls (ASetQuestion v) s = (s\<lparr>question := v\<rparr>, [])"
| "ai_step ls ASubmit s = handleAskQuestion ls s"
| "ai_step ls (AHistoryReply r) s = fetchConversationHistory_reply r s"
| "ai_step ls (AAskReply c now r) s = handleAskQuestion_reply c now r s"

section \<open>LoginForm\<close>

text \<open>
  The repository holds two versions of the login form. They differ in one state variable,
  \<open>agreedToTerms\<close>, which the second checks on sign-up and resets on the mode toggle.
\<close>

record login_state = loadable +
  email :: string
  password :: string
  confirmPassword :: string
  fullName :: string
  age :: string
  gender :: string
  showPassword :: bool
  isSignUp :: bool

record login_terms_state = login_state +
  agreedToTerms :: bool

definition LoginForm_init :: login_state where
  "LoginForm_init =
     \<lparr>loading = False, email = '''', password = '''', confirmPassword = '''', fullName = '''',
      age = '''', gender = ''male'', showPassword = False, isSignUp = False\<rparr>"

definition LoginForm_terms_init :: login_terms_state where
  "LoginForm_terms_init =
     \<lparr>loading = False, email = '''', password = '''', confirmPassword = '''', fullName = '''',
      age = '''', gender = ''male'', showPassword = False, isSignUp = False,
      agreedToTerms = False\<rparr>"

definition API_BASE_URL :: string where
  "API_BASE_URL = ''http://localhost:5000/api''"

definition signup_request :: "'a login_state_scheme \<Rightarrow> request" where
  "signup_request s =
     \<lparr>url = API_BASE_URL @ ''/auth/signup'', http_method = ''POST'',
      headers = [(''Content-Type'', ''application/json'')],
      body = Json [(''email'', Val (JStr (email s))), (''password'', Val (JStr (password s))),
                   (''full_name'', Val (JStr (fullName s))), (''age'', ParseInt (JStr (age s))),
                   (''gender'', Val (JStr (gender s)))]\<rparr>"

definition login_request :: "'a login_state_scheme \<Rightarrow> request" where
  "login_request s =
     \<lparr>url = API_BASE_URL @ ''/auth/login'', http_method = ''POST'',
      headers = [(''Content-Type'', ''application/json'')],
      body = Json [(''email'', Val (JStr (email s))), (''password'', Val (JStr (password s)))]\<rparr>"

text \<open>The version without the terms checkbox.\<close>

definition handleSignUp :: "'a login_state_scheme \<Rightarrow> 'a login_state_scheme \<times> effect list" where
  "handleSignUp s =
     (if email s = [] \<or> password s = [] \<or> confirmPassword s = [] \<or> fullName s = [] \<or>
         age s = [] \<or> gender s = []
      then (s\<lparr>loading := False\<rparr>, [ToastError ''Please fill in all fields''])
      else if password s \<noteq> confirmPassword s
      then (s\<lparr>loading := False\<rparr>, [ToastError ''Passwords do not match''])
      else if length (password s) < 8
      then (s\<lparr>loading := False\<rparr>, [ToastError ''Password must be at least 8 characters''])
      else (s\<lparr>loading := True\<rparr>, [Fetch (signup_request s)]))"

text \<open>The version with the terms checkbox.\<close>

definition handleSignUp_terms :: "login_terms_state \<Rightarrow> login_terms_state \<times> effect list" where
  "handleSignUp_terms s =
     (if email s = [] \<or> password s = [] \<or> confirmPassword s = [] \<or> fullName s = [] \<or>
         age s = [] \<or> gender s = []
      then (s\<lparr>loading := False\<rparr>, [ToastError ''Please fill in all fields''])
      else if password s \<noteq> confirmPassword s
      then (s\<lparr>loading := False\<rparr>, [ToastError ''Passwords do not match''])
      else if length (password s) < 8
      then (s\<lparr>loading := False\<rparr>, [ToastError ''Password must be at least 8 characters''])
      else if \<not> agreedToTerms s
      then (s\<lparr>loading := False\<rparr>,
            [ToastError ''You must agree to the Terms of Service and Privacy Policy''])
      else (s\<lparr>loading := True\<rparr>, [Fetch (signup_request s)]))"

definition handleLogin :: "'a login_state_scheme \<Rightarrow> 'a login_state_scheme \<times> effect list" where
  "handleLogin s =
     (if email s = [] \<or> password s = []
      then (s\<lparr>loading := False\<rparr>, [ToastError ''Please enter email and password''])
      else (s\<lparr>loading := True\<rparr>, [Fetch (login_request s)]))"

text \<open>
  The four \<open>localStorage.setItem\<close> calls of a successful reply; the payload is the reply
  object itself, and \<open>setItem\<close> stores the string form of what it is given.
\<close>

definition store_session :: "jsobj \<Rightarrow> storage \<Rightarrow> storage" where
  "store_session d ls =
     setItem ''full_name'' (to_string (field d ''full_name''))
       (setItem ''email'' (to_string (field d ''email''))
         (setItem ''user_id'' (to_string (field d ''user_id''))
           (setItem ''token'' (to_string (field d ''token'')) ls)))"

definition handleSignUp_reply ::
  "jsobj reply \<Rightarrow> storage \<Rightarrow> 'a login_state_scheme \<Rightarrow>
     storage \<times> 'a login_state_scheme \<times> effect list" where
  "handleSignUp_reply r ls s =
     (case r of
        Parsed d \<Rightarrow>
          if success d
          then (store_session (payload d) ls, s\<lparr>loading := False\<rparr>,
                [ToastSuccess ''Account created successfully! Redirecting...'',
                 NavigateAfter 1500 ''/dashboard''])
          else (ls, s\<lparr>loading := False\<rparr>, [ToastError (or_else (error d) ''Signup failed'')])
      | Threw m \<Rightarrow> (ls, s\<lparr>loading := False\<rparr>, [ToastError (''Error: '' @ m)]))"

definition handleLogin_reply ::
  "jsobj reply \<Rightarrow> storage \<Rightarrow> 'a login_state_scheme \<Rightarrow>
     storage \<times> 'a login_state_scheme \<times> effect list" where
  "handleLogin_reply r ls s =
     (case r of
        Parsed d \<Rightarrow>
          if success d
          then (store_session (payload d) ls, s\<lparr>loading := False\<rparr>,
                [ToastSuccess ''Login successful! Redirecting...'',
                 NavigateAfter 1500 ''/dashboard''])
          else (ls, s\<lparr>loading := False\<rparr>, [ToastError (or_else (error d) ''Login failed'')])
      | Threw m \<Rightarrow> (ls, s\<lparr>loading := False\<rparr>, [ToastError (''Error: '' @ m)]))"

definition handleSubmit :: "login_state \<Rightarrow> login_state \<times> effect list" where
  "handleSubmit s = (if isSignUp s then handleSignUp s else handleLogin s)"

definition handleSubmit_terms :: "login_terms_state \<Rightarrow> login_terms_state \<times> effect list" where
  "handleSubmit_terms s = (if isSignUp s then handleSignUp_terms s else handleLogin s)"

text \<open>The link that toggles between signing in and signing up.\<close>

definition toggle_mode :: "'a login_state_scheme \<Rightarrow> 'a login_state_scheme" where
  "toggle_mode s =
     s\<lparr>isSignUp := \<not> isSignUp s, email := '''', password := '''', confirmPassword := '''',
       fullName := '''', age := '''', gender := ''male''\<rparr>"

definition toggle_mode_terms :: "login_terms_state \<Rightarrow> login_terms_state" where
  "toggle_mode_terms s = (toggle_mode s)\<lparr>agreedToTerms := False\<rparr>"

datatype login_event =
    GSetEmail string
  | GSetPassword string
  | GSetConfirmPassword string
  | GSetFullName string
  | GSetAge string
  | GSetGender string
  | GSetAgreed bool
  | GShowPassword
  | GToggleMode
  | GSubmit
  | GSignUpReply "jsobj reply"
  | GLoginReply "jsobj reply"

text \<open>The inputs and replies the two versions share.\<close>

fun login_common ::
  "storage \<Rightarrow> login_event \<Rightarrow> 'a login_state_scheme \<Rightarrow>
     storage \<times> 'a login_state_scheme \<times> effect list" where
  "login_common ls (GSetEmail v) s = (ls, s\<lparr>email := v\<rparr>, [])"
| "login_common ls (GSetPassword v) s = (ls, s\<lparr>password := v\<rparr>, [])"
| "login_common ls (GSetConfirmPassword v) s = (ls, s\<lparr>confirmPassword := v\<rparr>, [])"
| "login_common ls (GSetFullName v) s = (ls, s\<lparr>fullName := v\<rparr>, [])"
| "login_common ls (GSetAge v) s = (ls, s\<lparr>age := v\<rparr>, [])"
| "login_common ls (GSetGender v) s = (ls, s\<lparr>gender := v\<rparr>, [])"
| "login_common ls GShowPassword s = (ls, s\<lparr>showPassword := \<not> showPassword s\<rparr>, [])"
| "login_common ls (GSignUpReply r) s = handleSignUp_reply r ls s"
| "login_common ls (GLoginReply r) s = handleLogin_reply r ls s"
| "login_common ls _ s = (ls, s, [])"

text \<open>The version without the checkbox has no \<open>GSetAgreed\<close> event: it leaves the state alone.\<close>

definition login_step ::
  "storage \<Rightarrow> login_event \<Rightarrow> login_state \<Rightarrow> storage \<times> login_state \<times> effect list" where
  "login_step ls e s =
     (case e of
        GToggleMode \<Rightarrow> (ls, toggle_mode s, [])
      | GSubmit \<Rightarrow> (ls, handleSubmit s)
      | _ \<Rightarrow> login_common ls e s)"

definition login_terms_step ::
  "storage \<Rightarrow> login_event \<Rightarrow> login_terms_state \<Rightarrow>
     storage \<times> login_terms_state \<times> effect list" where
  "login_terms_step ls e s =
     (case e of
        GToggleMode \<Rightarrow> (ls, toggle_mode_terms s, [])
      | GSubmit \<Rightarrow> (ls, handleSubmit_terms s)
      | GSetAgreed b \<Rightarrow> (ls, s\<lparr>agreedToTerms := b\<rparr>, [])
      | _ \<Rightarrow> login_common ls e s)"

section \<open>ChatArea\<close>

text \<open>
  A chat message without its avatar, which is markup. A text read past the end of an
  array is \<open>undefined\<close>, modelled by \<^const>\<open>None\<close>.
\<close>

record message =
  msg_id :: nat
  msg_type :: string
  msg_text :: "string option"
  msg_time :: string

record chat_state =
  messages :: "message list"
  inputValue :: string

definition greeting :: string where
  "greeting = ''Hello! I'm your AI Health Assistant. I can help you with health questions, symptom analysis, and wellness advice. What would you like to know today?''"

definition ChatArea_init :: chat_state where
  "ChatArea_init =
     \<lparr>messages = [\<lparr>msg_id = 1, msg_type = ''ai'', msg_text = Some greeting, msg_time = ''11:33''\<rparr>],
      inputValue = ''''\<rparr>"

definition aiResponses :: "string list" where
  "aiResponses =
     [''That's a great question! Let me help you with that.'',
      ''Based on your symptoms, I recommend consulting with a healthcare professional.'',
      ''Here are some wellness tips for your health concern...'',
      ''I understand your concern. Let me provide some personalized advice.'']"

definition at_index :: "'a list \<Rightarrow> int \<Rightarrow> 'a option" where
  "at_index xs i = (if 0 \<le> i \<and> i < int (length xs) then Some (xs ! nat i) else None)"

text \<open>\<open>now\<close> is the formatted clock time. The handler reads \<open>messages\<close> from its closure.\<close>

definition handleSendMessage :: "string \<Rightarrow> chat_state \<Rightarrow> chat_state \<times> effect list" where
  "handleSendMessage now s =
     (if trim (inputValue s) \<noteq> []
      then (s\<lparr>messages := messages s @
                  [\<lparr>msg_id = length (messages s) + 1, msg_type = ''user'',
                    msg_text = Some (inputValue s), msg_time = now\<rparr>],
               inputValue := ''''\<rparr>, [ReplyAfter 1000])
      else (s, []))"

text \<open>
  The timer callback. \<open>random\<close> is the value of \<open>Math.random()\<close>; multiplying a double
  by four is exact, so the index is computed over the reals.
\<close>

definition simulated_reply :: "real \<Rightarrow> string \<Rightarrow> chat_state \<Rightarrow> chat_state" where
  "simulated_reply random now s =
     (let randomResponse = at_index aiResponses \<lfloor>random * real (length aiResponses)\<rfloor>
      in s\<lparr>messages := messages s @
              [\<lparr>msg_id = length (messages s) + 1, msg_type = ''ai'',
                msg_text = randomResponse, msg_time = now\<rparr>]\<rparr>)"

text \<open>
  The life of a mounted ChatArea: the state and the number of reply timers still running.
  \<open>Math.random()\<close> returns a number from 0 up to but not including 1.
\<close>

inductive chat_reach :: "chat_state \<times> nat \<Rightarrow> bool" where
  chat_mount: "chat_reach (ChatArea_init, 0)"
| chat_input: "chat_reach (s, n) \<Longrightarrow> chat_reach (s\<lparr>inputValue := v\<rparr>, n)"
| chat_send: "chat_reach (s, n) \<Longrightarrow>
     chat_reach (fst (handleSendMessage now s), n + length (snd (handleSendMessage now s)))"
| chat_timer: "chat_reach (s, Suc n) \<Longrightarrow> 0 \<le> random \<Longrightarrow> random < 1 \<Longrightarrow>
     chat_reach (simulated_reply random now s, n)"

datatype chat_event = CSetInput string | CSend string | CTimer real string

fun chat_step :: "chat_event \<Rightarrow> chat_state \<Rightarrow> chat_state \<times> effect list" where
  "chat_step (CSetInput v) s = (s\<lparr>inputValue := v\<rparr>, [])"
| "chat_step (CSend now) s = handleSendMessage now s"
| "chat_step (CTimer random now) s = (simulated_reply random now s, [])"

section \<open>The client as a whole\<close>

text \<open>
  Every stateful component of the repository, and every event one of them reacts to. An
  event that does not belong to the component has no step.
\<close>

datatype component =
    Reports reports_state
  | Medications med_state
  | Appointments appt_state
  | Lifestyle life_state
  | Womens womens_state
  | Assistant ai_state
  | Chat chat_state
  | Login login_state
  | LoginTerms login_terms_state

datatype event =
    ReportsEv reports_event
  | MedEv med_event
  | ApptEv appt_event
  | LifeEv life_event
  | WomensEv womens_event
  | AiEv ai_event
  | ChatEv chat_event
  | LoginEv login_event

definition step :: "storage \<Rightarrow> event \<Rightarrow> component \<Rightarrow> (storage \<times> component \<times> effect list) option" where
  "step ls ev c =
     (case (ev, c) of
        (ReportsEv e, Reports s) \<Rightarrow>
          Some (ls, Reports (fst (reports_step ls e s)), snd (reports_step ls e s))
      | (MedEv e, Medications s) \<Rightarrow>
          Some (ls, Medications (fst (med_step ls e s)), snd (med_step ls e s))
      | (ApptEv e, Appointments s) \<Rightarrow>
          Some (ls, Appointments (fst (appt_step ls e s)), snd (appt_step ls e s))
      | (LifeEv e, Lifestyle s) \<Rightarrow>
          Some (ls, Lifestyle (fst (life_step ls e s)), snd (life_step ls e s))
      | (WomensEv e, Womens s) \<Rightarrow>
          Some (ls, Womens (fst (womens_step ls e s)), snd (womens_step ls e s))
      | (AiEv e, Assistant s) \<Rightarrow>
          Some (ls, Assistant (fst (ai_step ls e s)), snd (ai_step ls e s))
      | (ChatEv e, Chat s) \<Rightarrow>
          Some (ls, Chat (fst (chat_step e s)), snd (chat_step e s))
      | (LoginEv e, Login s) \<Rightarrow>
          Some (fst (login_step ls e s), Login (fst (snd (login_step ls e s))),
                snd (snd (login_step ls e s)))
      | (LoginEv e, LoginTerms s) \<Rightarrow>
          Some (fst (login_terms_step ls e s), LoginTerms (fst (snd (login_terms_step ls e s))),
                snd (snd (login_terms_step ls e s)))
      | _ \<Rightarrow> None)"

text \<open>The unsubmitted input a component holds, by field name.\<close>

fun form_state :: "component \<Rightarrow> jsobj" where
  "form_state (Reports s) = formData s"
| "form_state (Medications s) = formData s"
| "form_state (Appointments s) = formData s"
| "form_state (Lifestyle s) = formData s"
| "form_state (Womens s) = formData s"
| "form_state (Assistant s) = [(''question'', JStr (question s))]"
| "form_state (Chat s) = [(''inputValue'', JStr (inputValue s))]"
| "form_state (Login s) =
     [(''fullName'', JStr (fullName s)), (''email'', JStr (email s)), (''age'', JStr (age s)),
      (''gender'', JStr (gender s)), (''password'', JStr (password s)),
      (''confirmPassword'', JStr (confirmPassword s))]"
| "form_state (LoginTerms s) =
     [(''fullName'', JStr (fullName s)), (''email'', JStr (email s)), (''age'', JStr (age s)),
      (''gender'', JStr (gender s)), (''password'', JStr (password s)),
      (''confirmPassword'', JStr (confirmPassword s))]"

fun loading_of :: "component \<Rightarrow> bool" where
  "loading_of (Reports s) = loading s"
| "loading_of (Medications s) = loading s"
| "loading_of (Appointments s) = loading s"
| "loading_of (Lifestyle s) = loading s"
| "loading_of (Womens s) = loading s"
| "loading_of (Assistant s) = loading s"
| "loading_of (Chat s) = False"
| "loading_of (Login s) = loading s"
| "loading_of (LoginTerms s) = loading s"

text \<open>The events that are form submissions.\<close>

definition is_submit :: "event \<Rightarrow> bool" where
  "is_submit e =
     (case e of
        ReportsEv RSubmitUpload \<Rightarrow> True
      | MedEv MSubmitAdd \<Rightarrow> True
      | ApptEv ApSubmitSchedule \<Rightarrow> True
      | LifeEv LSubmitLifestyle \<Rightarrow> True
      | LifeEv LSubmitMeal \<Rightarrow> True
      | WomensEv WSubmitPeriod \<Rightarrow> True
      | WomensEv (WSubmitSymptom now) \<Rightarrow> True
      | AiEv ASubmit \<Rightarrow> True
      | LoginEv GSubmit \<Rightarrow> True
      | _ \<Rightarrow> False)"

text \<open>
  The required fields of each form: the inputs its markup marks \<open>required\<close> (in the login
  form, \<open>required={isSignUp}\<close> for the sign-up fields). The meal form and the question
  form mark none; theirs are the fields their validation message names.
\<close>

fun login_required :: "bool \<Rightarrow> string list" where
  "login_required signUp =
     (if signUp then [''fullName'', ''email'', ''age'', ''gender'', ''password'', ''confirmPassword'']
      else [''email'', ''password''])"

definition required_fields :: "event \<Rightarrow> component \<Rightarrow> string list" where
  "required_fields e c =
     (case (e, c) of
        (ReportsEv RSubmitUpload, _) \<Rightarrow> [''name'', ''report_type'']
      | (MedEv MSubmitAdd, _) \<Rightarrow> [''name'', ''dosage'', ''frequency'']
      | (ApptEv ApSubmitSchedule, _) \<Rightarrow> [''date'', ''time'', ''doctor'', ''purpose'']
      | (LifeEv LSubmitMeal, _) \<Rightarrow> [''meal_type'', ''description'']
      | (WomensEv WSubmitPeriod, _) \<Rightarrow> [''start_date'']
      | (WomensEv (WSubmitSymptom now), _) \<Rightarrow> [''symptom_type'']
      | (AiEv ASubmit, _) \<Rightarrow> [''question'']
      | (LoginEv GSubmit, Login s) \<Rightarrow> login_required (isSignUp s)
      | (LoginEv GSubmit, LoginTerms s) \<Rightarrow> login_required (isSignUp s)
      | (_, _) \<Rightarrow> [])"

text \<open>
  What the client checks before sending beyond the presence of the required fields:
  sign-up compares the two passwords, asks for eight characters and, where the form has
  the checkbox, for the agreement; the upload needs a selected file; the question must
  hold more than white space.
\<close>

definition further_checks :: "event \<Rightarrow> component \<Rightarrow> bool" where
  "further_checks e c =
     (case (e, c) of
        (LoginEv GSubmit, Login s) \<Rightarrow>
          (if isSignUp s then password s = confirmPassword s \<and> 8 \<le> length (password s)
           else True)
      | (LoginEv GSubmit, LoginTerms s) \<Rightarrow>
          (if isSignUp s
           then password s = confirmPassword s \<and> 8 \<le> length (password s) \<and> agreedToTerms s
           else True)
      | (ReportsEv RSubmitUpload, Reports s) \<Rightarrow> (selectedFile s \<noteq> None)
      | (AiEv ASubmit, Assistant s) \<Rightarrow> (trim (question s) \<noteq> [])
      | (_, _) \<Rightarrow> True)"

text \<open>The buttons that switch the active tab of a section component.\<close>

definition is_tab_switch :: "event \<Rightarrow> bool" where
  "is_tab_switch e =
     (case e of
        ReportsEv RTabUpload \<Rightarrow> True
      | ReportsEv RTabView \<Rightarrow> True
      | MedEv MTabAdd \<Rightarrow> True
      | MedEv MTabView \<Rightarrow> True
      | ApptEv ApTabSchedule \<Rightarrow> True
      | ApptEv ApTabView \<Rightarrow> True
      | LifeEv LTabLog \<Rightarrow> True
      | LifeEv LTabSummary \<Rightarrow> True
      | WomensEv WTabPeriod \<Rightarrow> True
      | WomensEv WTabSymptoms \<Rightarrow> True
      | WomensEv WTabHistory \<Rightarrow> True
      | WomensEv WViewPeriods \<Rightarrow> True
      | WomensEv WViewSymptoms \<Rightarrow> True
      | _ \<Rightarrow> False)"

text \<open>
  Replies. \<open>failure\<close>: something threw, or the reply is not a success. \<open>failed\<close> lifts it to
  events; \<open>server_error\<close> is the \<open>error\<close> text a parsed reply carries.
\<close>

definition failure :: "'a reply \<Rightarrow> bool" where
  "failure r = (case r of Threw m \<Rightarrow> True | Parsed d \<Rightarrow> \<not> success d)"

definition error_text :: "'a reply \<Rightarrow> string" where
  "error_text r = (case r of Threw m \<Rightarrow> [] | Parsed d \<Rightarrow> error d)"

definition failed :: "event \<Rightarrow> bool" where
  "failed e =
     (case e of
        ReportsEv (RListReply r) \<Rightarrow> failure r
      | ReportsEv (RUploadReply c r) \<Rightarrow> failure r
      | ReportsEv (RDeleteReply c i r) \<Rightarrow> failure r
      | MedEv (MListReply r) \<Rightarrow> failure r
      | MedEv (MAddReply c r) \<Rightarrow> failure r
      | MedEv (MLogDoseReply r) \<Rightarrow> failure r
      | ApptEv (ApListReply r) \<Rightarrow> failure r
      | ApptEv (ApScheduleReply c r) \<Rightarrow> failure r
      | LifeEv (LSummaryReply r) \<Rightarrow> failure r
      | LifeEv (LLifestyleReply r) \<Rightarrow> failure r
      | LifeEv (LMealReply r) \<Rightarrow> failure r
      | WomensEv (WPeriodsReply r) \<Rightarrow> failure r
      | WomensEv (WSymptomsReply r) \<Rightarrow> failure r
      | WomensEv (WLogPeriodReply r) \<Rightarrow> failure r
      | WomensEv (WLogSymptomReply r) \<Rightarrow> failure r
      | AiEv (AHistoryReply r) \<Rightarrow> failure r
      | AiEv (AAskReply c now r) \<Rightarrow> failure r
      | LoginEv (GSignUpReply r) \<Rightarrow> failure r
      | LoginEv (GLoginReply r) \<Rightarrow> failure r
      | _ \<Rightarrow> False)"

definition server_error :: "event \<Rightarrow> string" where
  "server_error e =
     (case e of
        ReportsEv (RUploadReply c r) \<Rightarrow> error_text r
      | MedEv (MAddReply c r) \<Rightarrow> error_text r
      | MedEv (MLogDoseReply r) \<Rightarrow> error_text r
      | ApptEv (ApScheduleReply c r) \<Rightarrow> error_text r
      | LifeEv (LLifestyleReply r) \<Rightarrow> error_text r
      | LifeEv (LMealReply r) \<Rightarrow> error_text r
      | WomensEv (WLogPeriodReply r) \<Rightarrow> error_text r
      | WomensEv (WLogSymptomReply r) \<Rightarrow> error_text r
      | AiEv (AAskReply c now r) \<Rightarrow> error_text r
      | LoginEv (GSignUpReply r) \<Rightarrow> error_text r
      | LoginEv (GLoginReply r) \<Rightarrow> error_text r
      | _ \<Rightarrow> [])"

text \<open>
  The replies to the loads that fill a list, the summary or the history on mount, in every
  component but MedicalReports.
\<close>

definition quiet_load :: "event \<Rightarrow> bool" where
  "quiet_load e =
     (case e of
        MedEv (MListReply r) \<Rightarrow> True
      | ApptEv (ApListReply r) \<Rightarrow> True
      | LifeEv (LSummaryReply r) \<Rightarrow> True
      | WomensEv (WPeriodsReply r) \<Rightarrow> True
      | WomensEv (WSymptomsReply r) \<Rightarrow> True
      | AiEv (AHistoryReply r) \<Rightarrow> True
      | _ \<Rightarrow> False)"

definition auth_endpoints :: "string set" where
  "auth_endpoints = {''http://localhost:5000/api/auth/signup'', ''http://localhost:5000/api/auth/login''}"

text \<open>
  The replies to form submissions: their handlers had set \<open>loading\<close> and clear it in
  \<open>finally\<close>.
\<close>

definition is_submit_reply :: "event \<Rightarrow> bool" where
  "is_submit_reply e =
     (case e of
        ReportsEv (RUploadReply c r) \<Rightarrow> True
      | MedEv (MAddReply c r) \<Rightarrow> True
      | ApptEv (ApScheduleReply c r) \<Rightarrow> True
      | LifeEv (LLifestyleReply r) \<Rightarrow> True
      | LifeEv (LMealReply r) \<Rightarrow> True
      | WomensEv (WLogPeriodReply r) \<Rightarrow> True
      | WomensEv (WLogSymptomReply r) \<Rightarrow> True
      | AiEv (AAskReply c now r) \<Rightarrow> True
      | LoginEv (GSignUpReply r) \<Rightarrow> True
      | LoginEv (GLoginReply r) \<Rightarrow> True
      | _ \<Rightarrow> False)"

text \<open>A file whose name has no dot, and so no extension.\<close>

definition dotless_file :: jsfile where
  "dotless_file = \<lparr>file_name = ''pdf'', file_size = 2048\<rparr>"

text \<open>
  A run of the medication tracker in which the list is loaded between the submission of
  the form and its reply: the form with its required fields filled in, a medication the
  server already holds, the one the form adds, and the state once the list has arrived.
\<close>

definition example_med_form :: med_state where
  "example_med_form =
     handleChange ''frequency'' ''twice_daily''
       (handleChange ''dosage'' ''200mg''
         (handleChange ''name'' ''Ibuprofen'' MedicationTracker_init))"

definition stored_medication :: item where
  "stored_medication =
     [(''id'', JNum 1), (''name'', JStr ''Aspirin''), (''dosage'', JStr ''100mg''),
      (''frequency'', JStr ''once_daily''), (''start_date'', JStr ''''),
      (''end_date'', JStr ''''), (''notes'', JStr '''')]"

definition added_medication :: item where
  "added_medication =
     [(''id'', JNum 2), (''name'', JStr ''Ibuprofen''), (''dosage'', JStr ''200mg''),
      (''frequency'', JStr ''twice_daily''), (''start_date'', JStr ''''),
      (''end_date'', JStr ''''), (''notes'', JStr '''')]"

definition med_list_loaded :: med_state where
  "med_list_loaded =
     fst (med_step Map.empty
            (MListReply (Parsed \<lparr>success = True, error = [], payload = [stored_medication]\<rparr>))
            (fst (med_step Map.empty MSubmitAdd example_med_form)))"

text \<open>
  A run of the uploader: the form is filled in, a file is chosen and accepted, the form is
  submitted and the server answers with the stored report.
\<close>

definition example_file :: jsfile where
  "example_file = \<lparr>file_name = ''blood.test.PDF'', file_size = 2048\<rparr>"

definition example_filled :: reports_state where
  "example_filled =
     fst (handleFileSelect (Some example_file)
       (handleChange ''report_type'' ''blood_test''
         (handleChange ''name'' ''Blood test'' MedicalReports_init)))"

definition example_upload :: "reports_event list" where
  "example_upload =
     [RMount, RChange ''name'' ''Blood test'', RChange ''report_type'' ''blood_test'',
      RFileSelect (Some example_file), RSubmitUpload,
      RUploadReply example_filled
        (Parsed \<lparr>success = True, error = [],
                 payload = [(''id'', JNum 1), (''name'', JStr ''Blood test'')]\<rparr>)]"

text \<open>Two filled-in sign-up forms, one with a password of five characters.\<close>

definition short_password_signup :: login_state where
  "short_password_signup =
     \<lparr>loading = False, email = ''ann@example.org'', password = ''short'',
      confirmPassword = ''short'', fullName = ''Ann Lee'', age = ''30'', gender = ''female'',
      showPassword = False, isSignUp = True\<rparr>"

definition good_signup :: login_state where
  "good_signup =
     \<lparr>loading = False, email = ''ann@example.org'', password = ''long enough'',
      confirmPassword = ''long enough'', fullName = ''Ann Lee'', age = ''30'', gender = ''female'',
      showPassword = False, isSignUp = True\<rparr>"

text \<open>Running a list of events on a MedicalReports component, collecting the requests.\<close>

fun reports_run ::
  "storage \<Rightarrow> reports_event list \<Rightarrow> reports_state \<times> request list \<Rightarrow> reports_state \<times> request list" where
  "reports_run ls [] cfg = cfg"
| "reports_run ls (e # es) (s, sent) =
     reports_run ls es (fst (reports_step ls e s), sent @ requests (snd (reports_step ls e s)))"

section \<open>Properties of the sidebar\<close>

lemma handleLogout_removes_three:
  "getItem (localStorage (handleLogout b)) ''token'' = None \<and>
   getItem (localStorage (handleLogout b)) ''full_name'' = None \<and>
   getItem (localStorage (handleLogout b)) ''email'' = None"
  by (simp add: handleLogout_def getItem_def removeItem_def)

lemma handleLogout_location: "location (handleLogout b) = ''/''"
  by (simp add: handleLogout_def location_def navigate_def)

lemma handleLogout_other_keys:
  "k \<notin> {''token'', ''full_name'', ''email''} \<Longrightarrow>
   getItem (localStorage (handleLogout b)) k = getItem (localStorage b) k"
  by (simp add: handleLogout_def getItem_def removeItem_def)

text \<open>
  Claim C1 (logout removes the four session keys token, user_id, email and full_name and
  navigates to the root path). The handler removes three keys only: a stored
  \<open>user_id\<close> survives logout. Evaluated on the storage a login leaves behind.
\<close>

theorem handleLogout_keeps_user_id:
  "getItem (localStorage (handleLogout
      \<lparr>localStorage = [''token'' \<mapsto> ''t0'', ''user_id'' \<mapsto> ''42'',
                       ''email'' \<mapsto> ''a@b.c'', ''full_name'' \<mapsto> ''Ann Lee''],
       history = [''/dashboard'', ''/'']\<rparr>)) ''user_id'' = Some ''42''"
  by (simp add: handleLogout_def getItem_def removeItem_def)

section \<open>Unfolding the handlers\<close>

lemmas request_defs = requests_def header_def get_request_def post_json_def

lemmas reports_defs = fetchReports_def fetchReports_reply_def handleFileSelect_def
  handleUploadReport_def handleUploadReport_reply_def handleDeleteReport_def
  handleDeleteReport_reply_def upload_request_def handleChange_def

lemmas med_defs = fetchMedications_def fetchMedications_reply_def handleAddMedication_def
  handleAddMedication_reply_def handleLogDose_def handleLogDose_reply_def handleChange_def

lemmas appt_defs = fetchAppointments_def fetchAppointments_reply_def
  handleScheduleAppointment_def handleScheduleAppointment_reply_def handleChange_def

lemmas life_defs = fetchSummary_def fetchSummary_reply_def handleSubmitLifestyle_def
  handleSubmitLifestyle_reply_def handleSubmitMeal_def handleSubmitMeal_reply_def handleChange_def

lemmas womens_defs = fetchPeriodHistory_def fetchPeriodHistory_reply_def fetchSymptomHistory_def
  fetchSymptomHistory_reply_def handleLogPeriod_def handleLogPeriod_reply_def
  handleLogSymptom_def handleLogSymptom_reply_def handleChange_def

lemmas ai_defs = fetchConversationHistory_def fetchConversationHistory_reply_def
  handleAskQuestion_def handleAskQuestion_reply_def

lemmas login_defs = login_step_def login_terms_step_def handleSubmit_def handleSubmit_terms_def
  handleSignUp_def handleSignUp_terms_def handleLogin_def handleSignUp_reply_def
  handleLogin_reply_def toggle_mode_def toggle_mode_terms_def

lemma stepE:
  assumes "step ls ev c = Some (ls', c', effs)"
  obtains
    (Reports) e s where "ev = ReportsEv e" "c = Reports s" "ls' = ls"
      "c' = Reports (fst (reports_step ls e s))" "effs = snd (reports_step ls e s)"
  | (Medications) e s where "ev = MedEv e" "c = Medications s" "ls' = ls"
      "c' = Medications (fst (med_step ls e s))" "effs = snd (med_step ls e s)"
  | (Appointments) e s where "ev = ApptEv e" "c = Appointments s" "ls' = ls"
      "c' = Appointments (fst (appt_step ls e s))" "effs = snd (appt_step ls e s)"
  | (Lifestyle) e s where "ev = LifeEv e" "c = Lifestyle s" "ls' = ls"
      "c' = Lifestyle (fst (life_step ls e s))" "effs = snd (life_step ls e s)"
  | (Womens) e s where "ev = WomensEv e" "c = Womens s" "ls' = ls"
      "c' = Womens (fst (womens_step ls e s))" "effs = snd (womens_step ls e s)"
  | (Assistant) e s where "ev = AiEv e" "c = Assistant s" "ls' = ls"
      "c' = Assistant (fst (ai_step ls e s))" "effs = snd (ai_step ls e s)"
  | (Chat) e s where "ev = ChatEv e" "c = Chat s" "ls' = ls"
      "c' = Chat (fst (chat_step e s))" "effs = snd (chat_step e s)"
  | (Login) e s where "ev = LoginEv e" "c = Login s" "ls' = fst (login_step ls e s)"
      "c' = Login (fst (snd (login_step ls e s)))" "effs = snd (snd (login_step ls e s))"
  | (LoginTerms) e s where "ev = LoginEv e" "c = LoginTerms s"
      "ls' = fst (login_terms_step ls e s)"
      "c' = LoginTerms (fst (snd (login_terms_step ls e s)))"
      "effs = snd (snd (login_terms_step ls e s))"
  using assms by (cases ev; cases c) (auto simp: step_def)

lemma reports_requests_bearer:
  "r \<in> set (requests (snd (reports_step ls e s))) \<Longrightarrow> header r ''Authorization'' = Some (bearer ls)"
  by (cases e) (auto simp: reports_defs request_defs split: option.splits reply.splits if_splits)

lemma med_requests_bearer:
  "r \<in> set (requests (snd (med_step ls e s))) \<Longrightarrow> header r ''Authorization'' = Some (bearer ls)"
  by (cases e) (auto simp: med_defs request_defs split: option.splits reply.splits if_splits)

lemma appt_requests_bearer:
  "r \<in> set (requests (snd (appt_step ls e s))) \<Longrightarrow> header r ''Authorization'' = Some (bearer ls)"
  by (cases e) (auto simp: appt_defs request_defs split: option.splits reply.splits if_splits)

lemma life_requests_bearer:
  "r \<in> set (requests (snd (life_step ls e s))) \<Longrightarrow> header r ''Authorization'' = Some (bearer ls)"
  by (cases e) (auto simp: life_defs request_defs split: option.splits reply.splits if_splits)

lemma womens_requests_bearer:
  "r \<in> set (requests (snd (womens_step ls e s))) \<Longrightarrow> header r ''Authorization'' = Some (bearer ls)"
  by (cases e) (auto simp: womens_defs request_defs split: option.splits reply.splits if_splits)

lemma ai_requests_bearer:
  "r \<in> set (requests (snd (ai_step ls e s))) \<Longrightarrow> header r ''Authorization'' = Some (bearer ls)"
  by (cases e) (auto simp: ai_defs request_defs split: option.splits reply.splits if_splits)

lemma chat_no_requests: "requests (snd (chat_step e s)) = []"
  by (cases e) (auto simp: handleSendMessage_def requests_def)

lemma login_requests_auth:
  "r \<in> set (requests (snd (snd (login_step ls e s)))) \<Longrightarrow> url r \<in> auth_endpoints"
  by (cases e) (auto simp: login_defs requests_def auth_endpoints_def API_BASE_URL_def
      signup_request_def login_request_def split: reply.splits if_splits)

lemma login_terms_requests_auth:
  "r \<in> set (requests (snd (snd (login_terms_step ls e s)))) \<Longrightarrow> url r \<in> auth_endpoints"
  by (cases e) (auto simp: login_defs requests_def auth_endpoints_def API_BASE_URL_def
      signup_request_def login_request_def split: reply.splits if_splits)

section \<open>Properties of the requests\<close>

text \<open>
  Claim C7: every HTTP request the client issues, other than those to the two auth
  endpoints, carries an Authorization header whose value is \<open>Bearer\<close>, a space, and the
  token read from local storage under the key \<open>token\<close> at the time of the call (an absent
  key reads as \<open>null\<close>, which the template prints as the four letters \<open>null\<close>).
\<close>

theorem every_request_carries_bearer_token:
  assumes "step ls ev c = Some (ls', c', effs)"
    and "r \<in> set (requests effs)"
    and "url r \<notin> auth_endpoints"
  shows "header r ''Authorization'' =
           Some (''Bearer '' @ (case getItem ls ''token'' of None \<Rightarrow> ''null'' | Some t \<Rightarrow> t))"
  using assms(1)
proof (cases rule: stepE)
  case Reports then show ?thesis using assms(2) reports_requests_bearer by (simp add: bearer_def)
next
  case Medications then show ?thesis using assms(2) med_requests_bearer by (simp add: bearer_def)
next
  case Appointments then show ?thesis using assms(2) appt_requests_bearer by (simp add: bearer_def)
next
  case Lifestyle then show ?thesis using assms(2) life_requests_bearer by (simp add: bearer_def)
next
  case Womens then show ?thesis using assms(2) womens_requests_bearer by (simp add: bearer_def)
next
  case Assistant then show ?thesis using assms(2) ai_requests_bearer by (simp add: bearer_def)
next
  case Chat then show ?thesis using assms(2) chat_no_requests by simp
next
  case Login then show ?thesis using assms(2,3) login_requests_auth by blast
next
  case LoginTerms then show ?thesis using assms(2,3) login_terms_requests_auth by blast
qed

theorem every_request_carries_bearer_token_witness:
  "step [''token'' \<mapsto> ''t0''] (MedEv MMount) (Medications MedicationTracker_init) =
     Some ([''token'' \<mapsto> ''t0''], Medications MedicationTracker_init,
           [Fetch (get_request [''token'' \<mapsto> ''t0''] ''/medication/active'')]) \<and>
   get_request [''token'' \<mapsto> ''t0''] ''/medication/active'' \<in>
     set (requests [Fetch (get_request [''token'' \<mapsto> ''t0''] ''/medication/active'')]) \<and>
   url (get_request [''token'' \<mapsto> ''t0''] ''/medication/active'') \<notin> auth_endpoints \<and>
   header (get_request [''token'' \<mapsto> ''t0''] ''/medication/active'') ''Authorization'' =
     Some ''Bearer t0''"
proof -
  let ?ls = "[''token'' \<mapsto> ''t0'']"
  let ?r = "get_request ?ls ''/medication/active''"
  have h1: "step ?ls (MedEv MMount) (Medications MedicationTracker_init) =
     Some (?ls, Medications MedicationTracker_init, [Fetch ?r])"
    by (simp add: step_def fetchMedications_def)
  have h2: "?r \<in> set (requests [Fetch ?r])"
    by (simp add: requests_def)
  have h3: "url ?r \<notin> auth_endpoints"
    by (simp add: get_request_def API_def auth_endpoints_def)
  show ?thesis
    using h1 h2 h3 every_request_carries_bearer_token [OF h1 h2 h3]
    by (simp add: getItem_def)
qed

section \<open>Properties of the file selection\<close>

lemma split_no_sep: "d \<notin> set s \<Longrightarrow> split d s = [s]"
  by (induction s) auto

lemma split_not_Nil: "split d s \<noteq> []"
  by (induction s) (auto split: list.splits)

lemma split_sep_two: "d \<in> set s \<Longrightarrow> tl (split d s) \<noteq> []"
  by (induction s) (auto split: list.splits simp: split_not_Nil)

lemma last_split: "last (split d s) = rev (takeWhile (\<lambda>c. c \<noteq> d) (rev s))"
proof (induction s)
  case Nil
  show ?case by simp
next
  case (Cons c cs)
  show ?case
  proof (cases "d \<in> set cs")
    case True
    then obtain w v ws where sp: "split d cs = w # v # ws"
      using split_sep_two [of d cs] split_not_Nil [of d cs]
      by (cases "split d cs"; cases "tl (split d cs)") auto
    have l: "last (split d (c # cs)) = last (split d cs)"
      using sp by simp
    have t: "takeWhile (\<lambda>c. c \<noteq> d) (rev cs @ [c]) = takeWhile (\<lambda>c. c \<noteq> d) (rev cs)"
      using True by (intro takeWhile_append1 [of d]) auto
    show ?thesis
      unfolding l Cons.IH by (simp only: rev.simps t)
  next
    case False
    then have sp: "split d cs = [cs]" by (rule split_no_sep)
    show ?thesis
      using sp False by (auto simp: takeWhile_append takeWhile_eq_all_conv [THEN iffD2])
  qed
qed

lemma pop_last: "xs \<noteq> [] \<Longrightarrow> pop xs = Some (last xs)"
  by (cases xs rule: rev_cases) (auto simp: pop_def)

lemma fileExtension_last_segment:
  "fileExtension f = Some (toLowerCase (last_segment (file_name f)))"
  by (simp add: fileExtension_def pop_last split_not_Nil last_split last_segment_def)

lemma handleFileSelect_Some:
  "handleFileSelect (Some f) s =
     (if passes_validation f then (s\<lparr>selectedFile := Some f, fileError := ''''\<rparr>, [])
      else (s\<lparr>fileError := (if toLowerCase (last_segment (file_name f)) \<in> set allowedExtensions
                              then ''File size exceeds 10MB limit''
                              else ''Invalid file type. Allowed: PDF, JPG, PNG, BMP, TIFF, DOCX''),
              selectedFile := None\<rparr>, []))"
  by (simp add: handleFileSelect_def fileExtension_last_segment passes_validation_def maxSize_def
      allowedExtensions_def)

text \<open>What the file-selection handler does with a file, in one equation per outcome.\<close>

lemma handleFileSelect_result:
  "handleFileSelect (Some f) s = (s', effs) \<Longrightarrow>
     (if passes_validation f then selectedFile s' = Some f \<and> fileError s' = []
      else selectedFile s' = None \<and> fileError s' \<noteq> []) \<and>
     requests effs = []"
  by (auto simp: handleFileSelect_Some requests_def split: if_splits)

lemma handleFileSelect_rejects_example:
  "handleFileSelect (Some \<lparr>file_name = ''virus.exe'', file_size = 2048\<rparr>) MedicalReports_init =
     (MedicalReports_init
        \<lparr>fileError := ''Invalid file type. Allowed: PDF, JPG, PNG, BMP, TIFF, DOCX'',
         selectedFile := None\<rparr>, [])"
  by (simp add: handleFileSelect_def fileExtension_def pop_def toLowerCase_def
      toLowerCase_char_def allowedExtensions_def)

text \<open>A name in upper case with several dots, at exactly the size limit, is accepted.\<close>

lemma handleFileSelect_accepts_example:
  "handleFileSelect (Some \<lparr>file_name = ''scan.2024.PDF'', file_size = 10485760\<rparr>)
     MedicalReports_init =
   (MedicalReports_init
      \<lparr>selectedFile := Some \<lparr>file_name = ''scan.2024.PDF'', file_size = 10485760\<rparr>,
       fileError := ''''\<rparr>, [])"
  by (simp add: handleFileSelect_def fileExtension_def pop_def toLowerCase_def
      toLowerCase_char_def allowedExtensions_def maxSize_def)

text \<open>
  Claim C2 (the file-selection handler accepts a file only if the lower-cased text after
  the last dot of its name is one of pdf, jpg, jpeg, png, bmp, tiff, docx, doc and its size
  is at most 10 * 1024 * 1024 bytes). The handler takes \<open>split('.').pop()\<close> for the
  extension, which is the whole name when the name has no dot: a file named \<open>pdf\<close>, which
  has no extension at all, is accepted and becomes the selected file.
\<close>

theorem handleFileSelect_accepts_dotless_name:
  "CHR ''.'' \<notin> set (file_name dotless_file) \<and>
   fileExtension dotless_file = Some ''pdf'' \<and>
   handleFileSelect (Some dotless_file) MedicalReports_init =
     (MedicalReports_init\<lparr>selectedFile := Some dotless_file, fileError := ''''\<rparr>, [])"
  by (simp add: dotless_file_def handleFileSelect_def fileExtension_def pop_def toLowerCase_def
      toLowerCase_char_def allowedExtensions_def maxSize_def)

section \<open>Properties of the tabs\<close>

lemma reports_tab_form:
  "is_tab_switch (ReportsEv e) \<Longrightarrow> formData (fst (reports_step ls e s)) = formData s"
  by (cases e) (auto simp: is_tab_switch_def)

lemma med_tab_form:
  "is_tab_switch (MedEv e) \<Longrightarrow> formData (fst (med_step ls e s)) = formData s"
  by (cases e) (auto simp: is_tab_switch_def)

lemma appt_tab_form:
  "is_tab_switch (ApptEv e) \<Longrightarrow> formData (fst (appt_step ls e s)) = formData s"
  by (cases e) (auto simp: is_tab_switch_def)

lemma life_tab_form:
  "is_tab_switch (LifeEv e) \<Longrightarrow> formData (fst (life_step ls e s)) = formData s"
  by (cases e) (auto simp: is_tab_switch_def)

lemma womens_tab_form:
  "is_tab_switch (WomensEv e) \<Longrightarrow> formData (fst (womens_step ls e s)) = formData s"
  by (cases e) (auto simp: is_tab_switch_def)

text \<open>
  Claim C8: in every section component, switching the active tab leaves the form state
  unchanged, so input typed into a form and not yet submitted survives the switch.
\<close>
theorem tab_switch_keeps_form_state:
  assumes "step ls ev c = Some (ls', c', effs)" and "is_tab_switch ev"
  shows "form_state c' = form_state c"
  using assms(1)
proof (cases rule: stepE)
  case Reports then show ?thesis using assms(2) reports_tab_form by simp
next
  case Medications then show ?thesis using assms(2) med_tab_form by simp
next
  case Appointments then show ?thesis using assms(2) appt_tab_form by simp
next
  case Lifestyle then show ?thesis using assms(2) life_tab_form by simp
next
  case Womens then show ?thesis using assms(2) womens_tab_form by simp
next
  case Assistant then show ?thesis using assms(2) by (simp add: is_tab_switch_def)
next
  case Chat then show ?thesis using assms(2) by (simp add: is_tab_switch_def)
next
  case Login then show ?thesis using assms(2) by (simp add: is_tab_switch_def)
next
  case LoginTerms then show ?thesis using assms(2) by (simp add: is_tab_switch_def)
qed

theorem tab_switch_keeps_form_state_witness:
  "step Map.empty (MedEv MTabView)
     (Medications (handleChange ''name'' ''Aspirin'' MedicationTracker_init)) =
     Some (Map.empty,
           Medications ((handleChange ''name'' ''Aspirin'' MedicationTracker_init)
                          \<lparr>activeTab := ''view''\<rparr>),
           fetchMedications Map.empty) \<and>
   is_tab_switch (MedEv MTabView) \<and>
   field (form_state (Medications ((handleChange ''name'' ''Aspirin'' MedicationTracker_init)
                          \<lparr>activeTab := ''view''\<rparr>))) ''name'' = JStr ''Aspirin''"
proof -
  let ?s = "handleChange ''name'' ''Aspirin'' MedicationTracker_init"
  have h1: "step Map.empty (MedEv MTabView) (Medications ?s) =
     Some (Map.empty, Medications (?s\<lparr>activeTab := ''view''\<rparr>), fetchMedications Map.empty)"
    by (simp add: step_def)
  have h2: "is_tab_switch (MedEv MTabView)"
    by (simp add: is_tab_switch_def)
  have "field (form_state (Medications ?s)) ''name'' = JStr ''Aspirin''"
    by (simp add: handleChange_def MedicationTracker_init_def med_form_def spread_set_def
        field_def)
  then show ?thesis
    using h1 h2 tab_switch_keeps_form_state [OF h1 h2] by simp
qed

text \<open>
  The link of the login form that toggles between signing in and signing up is not a tab
  of a section component; it does empty the fields.
\<close>

lemma toggle_mode_clears:
  "email (toggle_mode s) = [] \<and> password (toggle_mode s) = [] \<and>
   confirmPassword (toggle_mode s) = [] \<and> fullName (toggle_mode s) = [] \<and>
   age (toggle_mode s) = []"
  by (simp add: toggle_mode_def)

section \<open>Properties of the validation\<close>

lemma trim_Nil: "trim [] = []"
  by (simp add: trim_def)

lemmas toast_defs = requests_def error_toasts_def

lemma reports_required:
  "k \<in> set (required_fields (ReportsEv e) (Reports s)) \<Longrightarrow> field (formData s) k = JStr [] \<Longrightarrow>
     requests (snd (reports_step ls e s)) = [] \<and> error_toasts (snd (reports_step ls e s)) \<noteq> []"
  by (cases e) (auto simp: required_fields_def reports_defs toast_defs)

lemma med_required:
  "k \<in> set (required_fields (MedEv e) (Medications s)) \<Longrightarrow> field (formData s) k = JStr [] \<Longrightarrow>
     requests (snd (med_step ls e s)) = [] \<and> error_toasts (snd (med_step ls e s)) \<noteq> []"
  by (cases e) (auto simp: required_fields_def med_defs toast_defs)

lemma appt_required:
  "k \<in> set (required_fields (ApptEv e) (Appointments s)) \<Longrightarrow> field (formData s) k = JStr [] \<Longrightarrow>
     requests (snd (appt_step ls e s)) = [] \<and> error_toasts (snd (appt_step ls e s)) \<noteq> []"
  by (cases e) (auto simp: required_fields_def appt_defs toast_defs)

lemma life_required:
  "k \<in> set (required_fields (LifeEv e) (Lifestyle s)) \<Longrightarrow> field (formData s) k = JStr [] \<Longrightarrow>
     requests (snd (life_step ls e s)) = [] \<and> error_toasts (snd (life_step ls e s)) \<noteq> []"
  by (cases e) (auto simp: required_fields_def life_defs toast_defs)

lemma womens_required:
  "k \<in> set (required_fields (WomensEv e) (Womens s)) \<Longrightarrow> field (formData s) k = JStr [] \<Longrightarrow>
     requests (snd (womens_step ls e s)) = [] \<and> error_toasts (snd (womens_step ls e s)) \<noteq> []"
  by (cases e) (auto simp: required_fields_def womens_defs toast_defs)

lemma ai_required:
  "k \<in> set (required_fields (AiEv e) (Assistant s)) \<Longrightarrow>
   field (form_state (Assistant s)) k = JStr [] \<Longrightarrow>
     requests (snd (ai_step ls e s)) = [] \<and> error_toasts (snd (ai_step ls e s)) \<noteq> []"
  by (cases e) (auto simp: required_fields_def ai_defs toast_defs field_def trim_Nil)

lemma login_required:
  "k \<in> set (required_fields (LoginEv e) (Login s)) \<Longrightarrow>
   field (form_state (Login s)) k = JStr [] \<Longrightarrow>
     requests (snd (snd (login_step ls e s))) = [] \<and>
     error_toasts (snd (snd (login_step ls e s))) \<noteq> []"
  by (cases e) (auto simp: required_fields_def login_defs toast_defs field_def split: if_splits)

lemma login_terms_required:
  "k \<in> set (required_fields (LoginEv e) (LoginTerms s)) \<Longrightarrow>
   field (form_state (LoginTerms s)) k = JStr [] \<Longrightarrow>
     requests (snd (snd (login_terms_step ls e s))) = [] \<and>
     error_toasts (snd (snd (login_terms_step ls e s))) \<noteq> []"
  by (cases e) (auto simp: required_fields_def login_defs toast_defs field_def split: if_splits)

text \<open>
  Claim C3: for every component and every submit action, if a required field of the form
  state is the empty string, the handler shows a validation notification and returns
  before any fetch call: no network request is issued.
\<close>

theorem empty_required_field_blocks_request:
  assumes "step ls ev c = Some (ls', c', effs)"
    and "k \<in> set (required_fields ev c)"
    and "field (form_state c) k = JStr []"
  shows "requests effs = [] \<and> error_toasts effs \<noteq> []"
  using assms(1)
proof (cases rule: stepE)
  case Reports then show ?thesis using assms(2,3) reports_required by simp
next
  case Medications then show ?thesis using assms(2,3) med_required by simp
next
  case Appointments then show ?thesis using assms(2,3) appt_required by simp
next
  case Lifestyle then show ?thesis using assms(2,3) life_required by simp
next
  case Womens then show ?thesis using assms(2,3) womens_required by simp
next
  case Assistant then show ?thesis using assms(2,3) ai_required by simp
next
  case Chat then show ?thesis using assms(2) by (simp add: required_fields_def)
next
  case Login then show ?thesis using assms(2,3) login_required by simp
next
  case LoginTerms then show ?thesis using assms(2,3) login_terms_required by simp
qed

theorem empty_required_field_blocks_request_witness:
  "step Map.empty (ApptEv ApSubmitSchedule)
     (Appointments (handleChange ''date'' ''2026-01-05'' AppointmentScheduler_init)) =
     Some (Map.empty, Appointments (handleChange ''date'' ''2026-01-05'' AppointmentScheduler_init),
           [ToastError ''Please fill in all required fields'']) \<and>
   ''doctor'' \<in> set (required_fields (ApptEv ApSubmitSchedule)
     (Appointments (handleChange ''date'' ''2026-01-05'' AppointmentScheduler_init))) \<and>
   field (form_state (Appointments (handleChange ''date'' ''2026-01-05'' AppointmentScheduler_init)))
     ''doctor'' = JStr [] \<and>
   requests [ToastError ''Please fill in all required fields''] = [] \<and>
   error_toasts [ToastError ''Please fill in all required fields''] =
     [''Please fill in all required fields'']"
proof -
  let ?c = "Appointments (handleChange ''date'' ''2026-01-05'' AppointmentScheduler_init)"
  have h1: "step Map.empty (ApptEv ApSubmitSchedule) ?c =
     Some (Map.empty, ?c, [ToastError ''Please fill in all required fields''])"
    by (simp add: step_def appt_defs AppointmentScheduler_init_def appt_form_def
        spread_set_def field_def)
  have h2: "''doctor'' \<in> set (required_fields (ApptEv ApSubmitSchedule) ?c)"
    by (simp add: required_fields_def)
  have h3: "field (form_state ?c) ''doctor'' = JStr []"
    by (simp add: appt_defs AppointmentScheduler_init_def appt_form_def spread_set_def field_def)
  show ?thesis
    using h1 h2 h3 empty_required_field_blocks_request [OF h1 h2 h3]
    by (simp add: toast_defs)
qed

lemma trim_nonempty: "trim q \<noteq> [] \<Longrightarrow> q \<noteq> []"
  by (auto simp: trim_Nil)

lemma reports_sends:
  "is_submit (ReportsEv e) \<Longrightarrow>
     (requests (snd (reports_step ls e s)) \<noteq> []) =
     (list_all (\<lambda>k. \<not> falsy (field (formData s) k)) (required_fields (ReportsEv e) (Reports s)) \<and>
      further_checks (ReportsEv e) (Reports s))"
  by (cases e) (auto simp: is_submit_def required_fields_def further_checks_def reports_defs
      toast_defs split: option.splits)

lemma med_sends:
  "is_submit (MedEv e) \<Longrightarrow>
     (requests (snd (med_step ls e s)) \<noteq> []) =
     (list_all (\<lambda>k. \<not> falsy (field (formData s) k)) (required_fields (MedEv e) (Medications s)) \<and>
      further_checks (MedEv e) (Medications s))"
  by (cases e) (auto simp: is_submit_def required_fields_def further_checks_def med_defs
      toast_defs)

lemma appt_sends:
  "is_submit (ApptEv e) \<Longrightarrow>
     (requests (snd (appt_step ls e s)) \<noteq> []) =
     (list_all (\<lambda>k. \<not> falsy (field (formData s) k)) (required_fields (ApptEv e) (Appointments s)) \<and>
      further_checks (ApptEv e) (Appointments s))"
  by (cases e) (auto simp: is_submit_def required_fields_def further_checks_def appt_defs
      toast_defs)

lemma life_sends:
  "is_submit (LifeEv e) \<Longrightarrow>
     (requests (snd (life_step ls e s)) \<noteq> []) =
     (list_all (\<lambda>k. \<not> falsy (field (formData s) k)) (required_fields (LifeEv e) (Lifestyle s)) \<and>
      further_checks (LifeEv e) (Lifestyle s))"
  by (cases e) (auto simp: is_submit_def required_fields_def further_checks_def life_defs
      toast_defs)

lemma womens_sends:
  "is_submit (WomensEv e) \<Longrightarrow>
     (requests (snd (womens_step ls e s)) \<noteq> []) =
     (list_all (\<lambda>k. \<not> falsy (field (formData s) k)) (required_fields (WomensEv e) (Womens s)) \<and>
      further_checks (WomensEv e) (Womens s))"
  by (cases e) (auto simp: is_submit_def required_fields_def further_checks_def womens_defs
      toast_defs)

lemma ai_sends:
  "is_submit (AiEv e) \<Longrightarrow>
     (requests (snd (ai_step ls e s)) \<noteq> []) =
     (list_all (\<lambda>k. \<not> falsy (field (form_state (Assistant s)) k))
        (required_fields (AiEv e) (Assistant s)) \<and>
      further_checks (AiEv e) (Assistant s))"
  by (cases e) (auto simp: is_submit_def required_fields_def further_checks_def ai_defs
      toast_defs field_def dest: trim_nonempty)

lemma login_sends:
  "is_submit (LoginEv e) \<Longrightarrow>
     (requests (snd (snd (login_step ls e s))) \<noteq> []) =
     (list_all (\<lambda>k. \<not> falsy (field (form_state (Login s)) k))
        (required_fields (LoginEv e) (Login s)) \<and>
      further_checks (LoginEv e) (Login s))"
  by (cases e) (auto simp: is_submit_def required_fields_def further_checks_def login_defs
      toast_defs field_def)

lemma login_terms_sends:
  "is_submit (LoginEv e) \<Longrightarrow>
     (requests (snd (snd (login_terms_step ls e s))) \<noteq> []) =
     (list_all (\<lambda>k. \<not> falsy (field (form_state (LoginTerms s)) k))
        (required_fields (LoginEv e) (LoginTerms s)) \<and>
      further_checks (LoginEv e) (LoginTerms s))"
  by (cases e) (auto simp: is_submit_def required_fields_def further_checks_def login_defs
      toast_defs field_def)

text \<open>
  Claim C5, as amended: once the submit handler of a form runs, it sends its request
  exactly when every required field is present and the handler's further checks pass.
  Those are: on sign-up, the password equals its confirmation and has at least eight
  characters (and the terms box is ticked, in the version of the form that has one); on
  upload, a file is selected; on the question form, the question holds more than white
  space. The handlers check nothing else. The statement is about the submit handlers only:
  what the input attributes of the markup make the browser refuse before a handler runs,
  and what the file-selection handler refuses when a file is chosen, lie outside it.
\<close>

theorem submit_sends_iff_checks_pass:
  assumes "step ls ev c = Some (ls', c', effs)" and "is_submit ev"
  shows "(requests effs \<noteq> []) =
           (list_all (\<lambda>k. \<not> falsy (field (form_state c) k)) (required_fields ev c) \<and>
            further_checks ev c)"
  using assms(1)
proof (cases rule: stepE)
  case Reports then show ?thesis using assms(2) reports_sends by simp
next
  case Medications then show ?thesis using assms(2) med_sends by simp
next
  case Appointments then show ?thesis using assms(2) appt_sends by simp
next
  case Lifestyle then show ?thesis using assms(2) life_sends by simp
next
  case Womens then show ?thesis using assms(2) womens_sends by simp
next
  case Assistant then show ?thesis using assms(2) ai_sends by simp
next
  case Chat then show ?thesis using assms(2) by (simp add: is_submit_def)
next
  case Login then show ?thesis using assms(2) login_sends by simp
next
  case LoginTerms then show ?thesis using assms(2) login_terms_sends by simp
qed

text \<open>
  The claim as first stated (validation consists only of required-field presence checks)
  fails: a sign-up with every field filled in and a five-character password is rejected
  before any request is made.
\<close>

theorem signup_rejects_short_password:
  "email short_password_signup \<noteq> [] \<and> password short_password_signup \<noteq> [] \<and>
   confirmPassword short_password_signup \<noteq> [] \<and> fullName short_password_signup \<noteq> [] \<and>
   age short_password_signup \<noteq> [] \<and> gender short_password_signup \<noteq> [] \<and>
   handleSignUp short_password_signup =
     (short_password_signup, [ToastError ''Password must be at least 8 characters''])"
  by (simp add: short_password_signup_def handleSignUp_def)

theorem submit_sends_iff_checks_pass_witness:
  "step Map.empty (LoginEv GSubmit) (Login good_signup) =
     Some (Map.empty, Login (good_signup\<lparr>loading := True\<rparr>), [Fetch (signup_request good_signup)]) \<and>
   is_submit (LoginEv GSubmit) \<and>
   requests [Fetch (signup_request good_signup)] = [signup_request good_signup] \<and>
   further_checks (LoginEv GSubmit) (Login good_signup)"
proof -
  have h1: "step Map.empty (LoginEv GSubmit) (Login good_signup) =
     Some (Map.empty, Login (good_signup\<lparr>loading := True\<rparr>), [Fetch (signup_request good_signup)])"
    by (simp add: step_def login_defs good_signup_def)
  have h2: "is_submit (LoginEv GSubmit)"
    by (simp add: is_submit_def)
  show ?thesis
    using h1 h2 submit_sends_iff_checks_pass [OF h1 h2]
    by (simp add: requests_def)
qed

section \<open>Properties of the replies\<close>

text \<open>
  What a successful reply to an add, schedule or upload submission does to the list: the
  new list is the one the handler captured when the form was submitted, with the returned
  item at its end, and the component switches to the tab that shows the list.
\<close>

lemma success_reply_list:
  assumes "success d"
  shows "medications (fst (handleAddMedication_reply c (Parsed d) s)) =
           medications c @ [payload d]"
    and "activeTab (fst (handleAddMedication_reply c (Parsed d) s)) = ''view''"
    and "appointments (fst (handleScheduleAppointment_reply c' (Parsed d) s')) =
           appointments c' @ [payload d]"
    and "activeTab (fst (handleScheduleAppointment_reply c' (Parsed d) s')) = ''view''"
    and "reports (fst (handleUploadReport_reply c'' (Parsed d) s'')) = reports c'' @ [payload d]"
    and "activeTab (fst (handleUploadReport_reply c'' (Parsed d) s'')) = ''view''"
  using assms
  by (simp_all add: handleAddMedication_reply_def handleScheduleAppointment_reply_def
      handleUploadReport_reply_def)

text \<open>
  Claim C4 (for every add, schedule or upload submission whose reply has
  \<open>success = true\<close>, the returned item is merged into the component's list state). The
  handlers append to the list of the render in which the form was submitted, not to the
  list the component holds when the reply arrives. In the run below the form is submitted
  while the list is still empty, the load of the list then brings one medication, and the
  reply to the submission puts the list back to the captured empty one plus the new item:
  the medication that was on the list is gone from it.
\<close>

theorem add_reply_drops_loaded_items:
  "requests (snd (med_step Map.empty MSubmitAdd example_med_form)) =
     [post_json Map.empty ''/medication/add'' (stringify (formData example_med_form))] \<and>
   medications example_med_form = [] \<and>
   medications med_list_loaded = [stored_medication] \<and>
   medications (fst (med_step Map.empty
      (MAddReply example_med_form
         (Parsed \<lparr>success = True, error = [], payload = added_medication\<rparr>))
      med_list_loaded)) = [added_medication] \<and>
   stored_medication \<noteq> added_medication"
  by (simp add: med_list_loaded_def example_med_form_def stored_medication_def
      added_medication_def med_defs MedicationTracker_init_def med_form_def spread_set_def
      field_def requests_def)

lemmas failure_defs = failed_def failure_def quiet_load_def server_error_def error_text_def
  is_submit_reply_def error_toasts_def or_else_def

lemma reports_failed:
  "failed (ReportsEv e) \<Longrightarrow>
     (if quiet_load (ReportsEv e) then error_toasts (snd (reports_step ls e s)) = []
      else (\<exists>m. error_toasts (snd (reports_step ls e s)) = [m] \<and> m \<noteq> [] \<and>
                (server_error (ReportsEv e) = [] \<or> m = server_error (ReportsEv e)))) \<and>
     loading (fst (reports_step ls e s)) = (loading s \<and> \<not> is_submit_reply (ReportsEv e))"
  by (cases e) (auto simp: failure_defs reports_defs split: reply.splits)

lemma med_failed:
  "failed (MedEv e) \<Longrightarrow>
     (if quiet_load (MedEv e) then error_toasts (snd (med_step ls e s)) = []
      else (\<exists>m. error_toasts (snd (med_step ls e s)) = [m] \<and> m \<noteq> [] \<and>
                (server_error (MedEv e) = [] \<or> m = server_error (MedEv e)))) \<and>
     loading (fst (med_step ls e s)) = (loading s \<and> \<not> is_submit_reply (MedEv e))"
  by (cases e) (auto simp: failure_defs med_defs split: reply.splits)

lemma appt_failed:
  "failed (ApptEv e) \<Longrightarrow>
     (if quiet_load (ApptEv e) then error_toasts (snd (appt_step ls e s)) = []
      else (\<exists>m. error_toasts (snd (appt_step ls e s)) = [m] \<and> m \<noteq> [] \<and>
                (server_error (ApptEv e) = [] \<or> m = server_error (ApptEv e)))) \<and>
     loading (fst (appt_step ls e s)) = (loading s \<and> \<not> is_submit_reply (ApptEv e))"
  by (cases e) (auto simp: failure_defs appt_defs split: reply.splits)

lemma life_failed:
  "failed (LifeEv e) \<Longrightarrow>
     (if quiet_load (LifeEv e) then error_toasts (snd (life_step ls e s)) = []
      else (\<exists>m. error_toasts (snd (life_step ls e s)) = [m] \<and> m \<noteq> [] \<and>
                (server_error (LifeEv e) = [] \<or> m = server_error (LifeEv e)))) \<and>
     loading (fst (life_step ls e s)) = (loading s \<and> \<not> is_submit_reply (LifeEv e))"
  by (cases e) (auto simp: failure_defs life_defs split: reply.splits)

lemma womens_failed:
  "failed (WomensEv e) \<Longrightarrow>
     (if quiet_load (WomensEv e) then error_toasts (snd (womens_step ls e s)) = []
      else (\<exists>m. error_toasts (snd (womens_step ls e s)) = [m] \<and> m \<noteq> [] \<and>
                (server_error (WomensEv e) = [] \<or> m = server_error (WomensEv e)))) \<and>
     loading (fst (womens_step ls e s)) = (loading s \<and> \<not> is_submit_reply (WomensEv e))"
  by (cases e) (auto simp: failure_defs womens_defs split: reply.splits)

lemma ai_failed:
  "failed (AiEv e) \<Longrightarrow>
     (if quiet_load (AiEv e) then error_toasts (snd (ai_step ls e s)) = []
      else (\<exists>m. error_toasts (snd (ai_step ls e s)) = [m] \<and> m \<noteq> [] \<and>
                (server_error (AiEv e) = [] \<or> m = server_error (AiEv e)))) \<and>
     loading (fst (ai_step ls e s)) = (loading s \<and> \<not> is_submit_reply (AiEv e))"
  by (cases e) (auto simp: failure_defs ai_defs split: reply.splits)

lemma login_failed:
  "failed (LoginEv e) \<Longrightarrow>
     (if quiet_load (LoginEv e) then error_toasts (snd (snd (login_step ls e s))) = []
      else (\<exists>m. error_toasts (snd (snd (login_step ls e s))) = [m] \<and> m \<noteq> [] \<and>
                (server_error (LoginEv e) = [] \<or> m = server_error (LoginEv e)))) \<and>
     loading (fst (snd (login_step ls e s))) = (loading s \<and> \<not> is_submit_reply (LoginEv e))"
  by (cases e) (auto simp: failure_defs login_defs split: reply.splits)

lemma login_terms_failed:
  "failed (LoginEv e) \<Longrightarrow>
     (if quiet_load (LoginEv e) then error_toasts (snd (snd (login_terms_step ls e s))) = []
      else (\<exists>m. error_toasts (snd (snd (login_terms_step ls e s))) = [m] \<and> m \<noteq> [] \<and>
                (server_error (LoginEv e) = [] \<or> m = server_error (LoginEv e)))) \<and>
     loading (fst (snd (login_terms_step ls e s))) =
       (loading s \<and> \<not> is_submit_reply (LoginEv e))"
  by (cases e) (auto simp: failure_defs login_defs split: reply.splits)

text \<open>
  Claim C6, as amended: a failed reply (something threw, or the reply is not a success) to
  a form submission, to a dose log, to a report deletion or to the load of the report list
  raises exactly one error notification, which is not empty and is the server's error
  message wherever the reply carries one and the handler reads it. A failed reply to
  one of the other loads (medications, appointments, lifestyle summary, periods, symptoms,
  conversation history) raises no notification. In both cases the loading flag ends up off
  after a submission's reply and is otherwise left as it was, so the forms stay usable.
\<close>

theorem failure_is_notified_except_quiet_loads:
  assumes "step ls ev c = Some (ls', c', effs)" and "failed ev"
  shows "(if quiet_load ev then error_toasts effs = []
          else (\<exists>m. error_toasts effs = [m] \<and> m \<noteq> [] \<and>
                    (server_error ev = [] \<or> m = server_error ev))) \<and>
         loading_of c' = (loading_of c \<and> \<not> is_submit_reply ev)"
  using assms(1)
proof (cases rule: stepE)
  case Reports then show ?thesis using assms(2) reports_failed [of _ ls] by simp
next
  case Medications then show ?thesis using assms(2) med_failed [of _ ls] by simp
next
  case Appointments then show ?thesis using assms(2) appt_failed [of _ ls] by simp
next
  case Lifestyle then show ?thesis using assms(2) life_failed [of _ ls] by simp
next
  case Womens then show ?thesis using assms(2) womens_failed [of _ ls] by simp
next
  case Assistant then show ?thesis using assms(2) ai_failed [of _ ls] by simp
next
  case Chat then show ?thesis using assms(2) by (simp add: failed_def)
next
  case Login then show ?thesis using assms(2) login_failed [of _ ls] by simp
next
  case LoginTerms then show ?thesis using assms(2) login_terms_failed [of _ ls] by simp
qed

text \<open>
  The claim as first stated (every failure of every network operation is surfaced as a
  notification) fails: when loading the medications throws, the handler writes to the
  console and shows nothing.
\<close>

theorem failed_list_load_is_silent:
  "step Map.empty (MedEv (MListReply (Threw ''Failed to fetch'')))
     (Medications MedicationTracker_init) =
     Some (Map.empty, Medications MedicationTracker_init,
           [ConsoleError ''Error fetching medications: Failed to fetch'']) \<and>
   failure (Threw ''Failed to fetch'' :: item list reply) \<and>
   error_toasts [ConsoleError ''Error fetching medications: Failed to fetch''] = []"
  by (simp add: step_def med_defs failure_def error_toasts_def)

theorem failure_is_notified_except_quiet_loads_witness:
  "step Map.empty
     (MedEv (MAddReply MedicationTracker_init
        (Parsed \<lparr>success = False, error = ''Dosage is not valid'', payload = []\<rparr>)))
     (Medications (MedicationTracker_init\<lparr>loading := True\<rparr>)) =
     Some (Map.empty, Medications MedicationTracker_init, [ToastError ''Dosage is not valid'']) \<and>
   failed (MedEv (MAddReply MedicationTracker_init
        (Parsed \<lparr>success = False, error = ''Dosage is not valid'', payload = []\<rparr>))) \<and>
   error_toasts [ToastError ''Dosage is not valid''] = [''Dosage is not valid''] \<and>
   loading_of (Medications MedicationTracker_init) = False"
proof -
  let ?ev = "MedEv (MAddReply MedicationTracker_init
        (Parsed \<lparr>success = False, error = ''Dosage is not valid'', payload = []\<rparr>))"
  have h1: "step Map.empty ?ev (Medications (MedicationTracker_init\<lparr>loading := True\<rparr>)) =
     Some (Map.empty, Medications MedicationTracker_init, [ToastError ''Dosage is not valid''])"
    by (simp add: step_def med_defs MedicationTracker_init_def or_else_def)
  have h2: "failed ?ev"
    by (simp add: failed_def failure_def)
  show ?thesis
    using h1 h2 failure_is_notified_except_quiet_loads [OF h1 h2]
    by (simp add: error_toasts_def MedicationTracker_init_def)
qed

section \<open>Properties of the chat\<close>

lemma random_index:
  assumes "0 \<le> random" and "random < 1"
  shows "\<exists>t \<in> set aiResponses.
           at_index aiResponses \<lfloor>random * real (length aiResponses)\<rfloor> = Some t"
proof -
  have len: "length aiResponses = 4"
    by (simp add: aiResponses_def)
  have lo: "0 \<le> \<lfloor>random * 4\<rfloor>"
    using assms(1) by simp
  have hi: "\<lfloor>random * 4\<rfloor> < 4"
    using assms(2) by (simp add: floor_less_iff)
  have "nat \<lfloor>random * 4\<rfloor> < 4"
    using lo hi by linarith
  then have "nat \<lfloor>random * 4\<rfloor> < length aiResponses"
    by (simp only: len)
  then have mem: "aiResponses ! nat \<lfloor>random * 4\<rfloor> \<in> set aiResponses"
    by (rule nth_mem)
  have "real (length aiResponses) = 4"
    by (simp add: len)
  then have "at_index aiResponses \<lfloor>random * real (length aiResponses)\<rfloor> =
               Some (aiResponses ! nat \<lfloor>random * 4\<rfloor>)"
    using lo hi by (simp add: at_index_def len)
  with mem show ?thesis
    by blast
qed

text \<open>
  Claim C9: in the ChatArea component, every simulated AI reply appended after a user
  message is one of the four strings of \<open>aiResponses\<close>; the component produces no other AI
  text (the first message, the fixed greeting, is there from the start).
\<close>

theorem ai_replies_come_from_aiResponses:
  "chat_reach (s, n) \<Longrightarrow>
     messages s \<noteq> [] \<and> msg_text (hd (messages s)) = Some greeting \<and>
     (\<forall>m \<in> set (tl (messages s)).
        msg_type m = ''ai'' \<longrightarrow> (\<exists>t \<in> set aiResponses. msg_text m = Some t))"
proof (induction "(s, n)" arbitrary: s n rule: chat_reach.induct)
  case chat_mount
  show ?case by (simp add: ChatArea_init_def)
next
  case (chat_input s n v)
  then show ?case by simp
next
  case (chat_send s n now)
  then show ?case by (simp add: handleSendMessage_def)
next
  case (chat_timer s n random now)
  from random_index [OF chat_timer(3,4)]
  obtain t where "t \<in> set aiResponses"
    and "at_index aiResponses \<lfloor>random * real (length aiResponses)\<rfloor> = Some t"
    by blast
  with chat_timer(2) show ?case
    by (auto simp: simulated_reply_def)
qed

theorem ai_replies_come_from_aiResponses_witness:
  "chat_reach
     (simulated_reply (1 / 2) ''10:01''
        (fst (handleSendMessage ''10:00'' (ChatArea_init\<lparr>inputValue := ''I have a headache''\<rparr>))), 0) \<and>
   map msg_type (tl (messages
     (simulated_reply (1 / 2) ''10:01''
        (fst (handleSendMessage ''10:00'' (ChatArea_init\<lparr>inputValue := ''I have a headache''\<rparr>)))))) =
     [''user'', ''ai''] \<and>
   map msg_text (tl (messages
     (simulated_reply (1 / 2) ''10:01''
        (fst (handleSendMessage ''10:00'' (ChatArea_init\<lparr>inputValue := ''I have a headache''\<rparr>)))))) =
     [Some ''I have a headache'', Some ''Here are some wellness tips for your health concern...'']"
proof -
  let ?s1 = "ChatArea_init\<lparr>inputValue := ''I have a headache''\<rparr>"
  let ?s2 = "fst (handleSendMessage ''10:00'' ?s1)"
  let ?s3 = "simulated_reply (1 / 2) ''10:01'' ?s2"
  have t: "trim ''I have a headache'' \<noteq> []"
    by (simp add: trim_def is_space_def)
  have r1: "chat_reach (?s1, 0)"
    by (rule chat_input [OF chat_mount])
  have "chat_reach (?s2, 0 + length (snd (handleSendMessage ''10:00'' ?s1)))"
    by (rule chat_send [OF r1])
  then have r2: "chat_reach (?s2, Suc 0)"
    using t by (simp add: handleSendMessage_def)
  have r3: "chat_reach (?s3, 0)"
    by (rule chat_timer [OF r2]) simp_all
  have i: "at_index aiResponses \<lfloor>(1 / 2 :: real) * real (length aiResponses)\<rfloor> =
             Some ''Here are some wellness tips for your health concern...''"
    by (simp add: at_index_def aiResponses_def)
  show ?thesis
    using r3 t i ai_replies_come_from_aiResponses [OF r3]
    by (simp add: simulated_reply_def handleSendMessage_def ChatArea_init_def)
qed

section \<open>Properties of the upload\<close>

lemma passes_validation_example: "passes_validation example_file"
  by (simp add: example_file_def passes_validation_def last_segment_def toLowerCase_def
      toLowerCase_char_def)

lemma selectedFile_step:
  assumes "case selectedFile s of None \<Rightarrow> True | Some f \<Rightarrow> passes_validation f"
  shows "case selectedFile (fst (reports_step ls e s)) of
           None \<Rightarrow> True | Some f \<Rightarrow> passes_validation f"
proof (cases e)
  case (RFileSelect f0)
  then show ?thesis
    by (cases f0) (simp_all add: handleFileSelect_Some, simp add: handleFileSelect_def)
next
  case RSubmitUpload
  then show ?thesis
    using assms by (auto simp: handleUploadReport_def split: option.splits)
qed (use assms in \<open>auto simp: reports_defs split: reply.splits option.splits\<close>)

lemma uploads_step:
  assumes "case selectedFile s of None \<Rightarrow> True | Some f \<Rightarrow> passes_validation f"
  shows "list_all passes_validation
           (concat (map uploaded_files (requests (snd (reports_step ls e s)))))"
  using assms
  by (cases e)
     (auto simp: reports_defs request_defs uploaded_files_def split: reply.splits option.splits)

lemma submit_without_file:
  "selectedFile s = None \<Longrightarrow> requests (snd (handleUploadReport ls s)) = []"
  by (simp add: handleUploadReport_def requests_def)

text \<open>
  Claim C10: the selected file is always either absent or a file that passed both the
  extension and the size check, and submitting without a selected file sends nothing;
  hence every file the component has uploaded passed the validation.
\<close>

theorem no_rejected_file_is_uploaded:
  "reports_reach (s, sent) \<Longrightarrow>
     (case selectedFile s of None \<Rightarrow> True | Some f \<Rightarrow> passes_validation f) \<and>
     list_all passes_validation (concat (map uploaded_files sent)) \<and>
     (selectedFile s = None \<longrightarrow> requests (snd (handleUploadReport ls s)) = [])"
proof (induction "(s, sent)" arbitrary: s sent rule: reports_reach.induct)
  case reports_mount
  show ?case
    by (simp add: MedicalReports_init_def submit_without_file)
next
  case (reports_event s sent ls' e)
  then show ?case
    using selectedFile_step [of s ls' e] uploads_step [of s ls' e]
    by (simp add: submit_without_file)
qed

lemma reports_run_reach:
  "reports_reach (s, sent) \<Longrightarrow> reports_reach (reports_run ls es (s, sent))"
proof (induction es arbitrary: s sent)
  case Nil
  then show ?case by simp
next
  case (Cons e es)
  from Cons.prems have "reports_reach (fst (reports_step ls e s), sent @ requests (snd (reports_step ls e s)))"
    by (rule reports_event)
  then show ?case
    using Cons.IH by simp
qed

lemma example_filled_eq:
  "example_filled =
     \<lparr>loading = False,
      formData = [(''name'', JStr ''Blood test''), (''report_type'', JStr ''blood_test''),
                  (''notes'', JStr '''')],
      activeTab = ''upload'', reports = [], selectedFile = Some example_file, fileError = ''''\<rparr>"
  unfolding example_filled_def
  by (simp add: handleFileSelect_Some passes_validation_example handleChange_def
      MedicalReports_init_def reports_form_def spread_set_def)

lemma example_upload_run:
  "reports_run Map.empty example_upload (MedicalReports_init, []) =
     (\<lparr>loading = False, formData = reports_form, activeTab = ''view'',
       reports = [[(''id'', JNum 1), (''name'', JStr ''Blood test'')]],
       selectedFile = None, fileError = ''''\<rparr>,
      [get_request Map.empty ''/report/list'',
       upload_request Map.empty example_file
         [(''name'', JStr ''Blood test''), (''report_type'', JStr ''blood_test''),
          (''notes'', JStr '''')]])"
  unfolding example_upload_def
  by (simp add: example_filled_eq handleFileSelect_Some passes_validation_example
      handleChange_def MedicalReports_init_def reports_form_def spread_set_def field_def
      fetchReports_def handleUploadReport_def handleUploadReport_reply_def requests_def)

theorem no_rejected_file_is_uploaded_witness:
  "reports_reach (reports_run Map.empty example_upload (MedicalReports_init, [])) \<and>
   selectedFile (fst (reports_run Map.empty example_upload (MedicalReports_init, []))) = None \<and>
   concat (map uploaded_files (snd (reports_run Map.empty example_upload (MedicalReports_init, [])))) =
     [example_file] \<and>
   passes_validation example_file \<and>
   requests (snd (handleUploadReport Map.empty
     (fst (reports_run Map.empty example_upload (MedicalReports_init, []))))) = []"
proof -
  let ?cfg = "reports_run Map.empty example_upload (MedicalReports_init, [])"
  have r: "reports_reach ?cfg"
    by (rule reports_run_reach [OF reports_mount])
  then have r': "reports_reach (fst ?cfg, snd ?cfg)"
    by simp
  show ?thesis
    using r no_rejected_file_is_uploaded [OF r', of Map.empty]
    by (simp add: example_upload_run uploaded_files_def get_request_def upload_request_def)
qed

end
